theory Spec2Isabelle
  imports Complex_Main "HOL-Library.AList"
begin

section \<open>Bismuth node: the API command handler (libs/apihandler.py)\<close>

text \<open>
  A shallow embedding of class \<open>ApiHandler\<close>. Python values are a datatype, the
  per-call context (client session, ledger handle, peer registry) together with the
  application log is a record that every handler takes and returns, and an exception is
  the left summand of the result of an action.
\<close>

subsection \<open>Values, rows, exceptions\<close>

text \<open>
  One row of table \<open>transactions\<close>: the twelve columns in schema order. Amounts are
  integers in units of 1e-8 (the v2 storage form).
\<close>

record tx_row =
  block_height :: int
  timestamp :: rat
  address :: string
  recipient :: string
  amount :: int
  signature :: string
  public_key :: string
  block_hash :: string
  fee :: int
  reward :: int
  operation :: string
  openfield :: string

text \<open>
  Python values. A float is represented by the rational number it stands for (rounding to
  a double is not represented). \<open>VRow\<close> is a row tuple of \<open>SELECT * FROM transactions\<close>.
  A dict is its list of items in insertion order.
\<close>

datatype pyval =
    VNone
  | VBool bool
  | VInt int
  | VFloat rat
  | VStr string
  | VList "pyval list"
  | VTuple "pyval list"
  | VDict "(pyval \<times> pyval) list"
  | VRow tx_row

datatype exn_class =
    ValueError | TypeError | AttributeError | KeyError | IndexError
  | RuntimeError | InterfaceError | OperationalError | OtherError

text \<open>An instance of a subclass of \<open>Exception\<close>: its class and \<open>str(e)\<close>.\<close>

datatype exn = Exn exn_class string

fun str_of_exn :: "exn \<Rightarrow> string" where
  "str_of_exn (Exn c m) = m"

datatype level = INFO | WARNING | ERROR

text \<open>What the ledger handle was asked, in call order.\<close>

datatype db_call =
    BlockHeightMax
  | Execute string "pyval list"
  | KnownAddress pyval
  | PubkeyGet pyval
  | GetAddressRange pyval pyval pyval

subsection \<open>The per-call context\<close>

text \<open>
  \<open>inbox\<close>: the values the client has sent on the session and that \<open>connections.receive\<close>
  has not read yet; \<open>outbox\<close>: the values \<open>connections.send\<close> has written.
  \<open>transactions\<close>, \<open>misc\<close> (block height, difficulty) and \<open>height_max\<close> (what
  \<open>db_handler.block_height_max()\<close> answers) are the ledger; \<open>cursor\<close> is the pending
  result set of \<open>db_handler.h\<close>; \<open>db_calls\<close> records every request made to the ledger
  handle. \<open>app_log\<close> holds the records passed to the logger: level, message, arguments.
\<close>

record world =
  inbox :: "pyval list"
  outbox :: "pyval list"
  transactions :: "tx_row list"
  misc :: "(int \<times> rat) list"
  height_max :: int
  cursor :: "pyval list"
  db_calls :: "db_call list"
  consensus :: "pyval list"
  app_log :: "(level \<times> string \<times> pyval list) list"

text \<open>
  The node configuration and the behaviour of the collaborators that live outside this
  module: the address validator, the address lookups of the ledger handle, the
  transaction codec of bismuthcore, \<open>json.dumps\<close>, the built-ins \<open>int\<close> on a string and
  \<open>str\<close> on a value that is not a string, and the line
  \<open>"{} {} {}".format(exc_type, fname, exc_tb.tb_lineno)\<close> that two handlers log.
\<close>

record node =
  legacy_db :: bool
  address_is_valid :: "pyval \<Rightarrow> exn + bool"
  known_address :: "tx_row list \<Rightarrow> pyval \<Rightarrow> exn + pyval"
  pubkeyget :: "tx_row list \<Rightarrow> pyval \<Rightarrow> exn + pyval"
  from_v2_to_tuple :: "pyval \<Rightarrow> pyval"
  to_dict :: "pyval \<Rightarrow> (pyval \<times> pyval) list"
  to_blocks_dict :: "pyval list \<Rightarrow> pyval"
  json_dumps :: "pyval \<Rightarrow> pyval"
  int_of_str :: "string \<Rightarrow> int option"
  str_of :: "pyval \<Rightarrow> string"
  exc_info_line :: "exn \<Rightarrow> string"

subsection \<open>Actions: state passing with exceptions\<close>

type_synonym 'a act = "world \<Rightarrow> (exn + 'a) \<times> world"

definition ret :: "'a \<Rightarrow> 'a act" where
  "ret v = (\<lambda>w. (Inr v, w))"

definition raise :: "exn \<Rightarrow> 'a act" where
  "raise e = (\<lambda>w. (Inl e, w))"

definition lift :: "exn + 'a \<Rightarrow> 'a act" where
  "lift r = (\<lambda>w. (r, w))"

definition bnd :: "'a act \<Rightarrow> ('a \<Rightarrow> 'b act) \<Rightarrow> 'b act" where
  "bnd m f = (\<lambda>w. case m w of (Inl e, w') \<Rightarrow> (Inl e, w') | (Inr v, w') \<Rightarrow> f v w')"

text \<open>\<open>try: m except Exception as e: h e\<close>\<close>

definition try_except :: "'a act \<Rightarrow> (exn \<Rightarrow> 'a act) \<Rightarrow> 'a act" where
  "try_except m h = (\<lambda>w. case m w of (Inl e, w') \<Rightarrow> h e w' | (Inr v, w') \<Rightarrow> (Inr v, w'))"

subsection \<open>Session transport and logger\<close>

text \<open>
  \<open>connections.receive\<close> reads the next value of the session. With nothing left to read
  the real call ends in the transport's error, an exception here.
\<close>

definition receive :: "pyval act" where
  "receive = (\<lambda>w. case inbox w of
      [] \<Rightarrow> (Inl (Exn RuntimeError ''Socket EOF''), w)
    | v # rest \<Rightarrow> (Inr v, w\<lparr>inbox := rest\<rparr>))"

definition send :: "pyval \<Rightarrow> unit act" where
  "send v = (\<lambda>w. (Inr (), w\<lparr>outbox := outbox w @ [v]\<rparr>))"

definition app_log_write :: "level \<Rightarrow> string \<Rightarrow> pyval list \<Rightarrow> unit act" where
  "app_log_write l msg args = (\<lambda>w. (Inr (), w\<lparr>app_log := app_log w @ [(l, msg, args)]\<rparr>))"

subsection \<open>dispatch\<close>

text \<open>
  What \<open>getattr(self, method)\<close> finds: an attribute whose value is \<open>None\<close>, or any other
  attribute, given by what calling it with \<open>(socket_handler, db_handler, peers)\<close> does
  (for an attribute that is not callable, or not with three arguments, that is raising
  \<open>TypeError\<close>). A name that is not an attribute raises \<open>AttributeError\<close>.
\<close>

datatype attr = AttrNone | Callable "pyval act"

definition apostrophe :: string where
  "apostrophe = [CHR 0x27]"

definition getattr :: "(string \<Rightarrow> attr option) \<Rightarrow> string \<Rightarrow> attr act" where
  "getattr attrs method = (case attrs method of
      None \<Rightarrow> raise (Exn AttributeError
                (apostrophe @ ''ApiHandler'' @ apostrophe @ '' object has no attribute ''
                   @ apostrophe @ method @ apostrophe))
    | Some a \<Rightarrow> ret a)"

definition dispatch :: "(string \<Rightarrow> attr option) \<Rightarrow> string \<Rightarrow> pyval act" where
  "dispatch attrs method =
     try_except
       (bnd (getattr attrs method) (\<lambda>call.
          case call of
            AttrNone \<Rightarrow>
              bnd (app_log_write WARNING (''API Method <'' @ method @ ''> does not exist.'') [])
                (\<lambda>_. ret (VBool False))
          | Callable handler \<Rightarrow> bnd handler (\<lambda>result. ret result)))
       (\<lambda>e. bnd (app_log_write WARNING
                   (''Exception calling method '' @ method @ '': '' @ str_of_exn e) [])
               (\<lambda>_. ret (VBool False)))"

subsection \<open>Disabled operations\<close>

text \<open>
  \<open>api_getblocksafterwhere\<close> reads its two parameters, passes them to the logger and
  raises; everything after the \<open>raise\<close> in the source is unreachable.
  \<open>api_gettransaction\<close> and \<open>api_gettransactionbysignature\<close> raise in their first
  statement.
\<close>

definition api_getblocksafterwhere :: "node \<Rightarrow> pyval act" where
  "api_getblocksafterwhere nd =
     bnd receive (\<lambda>since_height.
     bnd receive (\<lambda>where_conditions.
     bnd (app_log_write WARNING ''api_getblocksafterwhere'' [since_height, where_conditions]) (\<lambda>_.
     raise (Exn ValueError ''Unsafe, do not use yet''))))"

definition api_gettransaction :: "node \<Rightarrow> pyval act" where
  "api_gettransaction nd = raise (Exn ValueError ''Do not use yet - Rewrite'')"

definition api_gettransactionbysignature :: "node \<Rightarrow> pyval act" where
  "api_gettransactionbysignature nd = raise (Exn ValueError ''Do not use yet - Rewrite'')"

subsection \<open>Python operators on the values the handlers meet\<close>

text \<open>\<open>bool\<close> is a subclass of \<open>int\<close>.\<close>

fun int_of :: "pyval \<Rightarrow> int option" where
  "int_of (VInt n) = Some n"
| "int_of (VBool b) = Some (if b then 1 else 0)"
| "int_of _ = None"

fun num_of :: "pyval \<Rightarrow> rat option" where
  "num_of (VInt n) = Some (of_int n)"
| "num_of (VBool b) = Some (if b then 1 else 0)"
| "num_of (VFloat q) = Some q"
| "num_of _ = None"

definition ebind :: "exn + 'a \<Rightarrow> ('a \<Rightarrow> exn + 'b) \<Rightarrow> exn + 'b" where
  "ebind r f = (case r of Inl e \<Rightarrow> Inl e | Inr v \<Rightarrow> f v)"

text \<open>
  \<open>a < b\<close>. In this module one side of every comparison is a number, and Python orders
  a number only with a number.
\<close>

definition py_lt :: "pyval \<Rightarrow> pyval \<Rightarrow> exn + bool" where
  "py_lt a b = (case (num_of a, num_of b) of
      (Some x, Some y) \<Rightarrow> Inr (x < y)
    | _ \<Rightarrow> Inl (Exn TypeError ''< not supported between these instances''))"

text \<open>\<open>a > b\<close> is \<open>b < a\<close>.\<close>

definition py_gt :: "pyval \<Rightarrow> pyval \<Rightarrow> exn + bool" where
  "py_gt a b = py_lt b a"

text \<open>\<open>max(a, b)\<close> keeps \<open>a\<close> unless \<open>b > a\<close>; \<open>min(a, b)\<close> keeps \<open>a\<close> unless \<open>b < a\<close>.\<close>

definition py_max :: "pyval \<Rightarrow> pyval \<Rightarrow> exn + pyval" where
  "py_max a b = ebind (py_gt b a) (\<lambda>g. Inr (if g then b else a))"

definition py_min :: "pyval \<Rightarrow> pyval \<Rightarrow> exn + pyval" where
  "py_min a b = ebind (py_lt b a) (\<lambda>l. Inr (if l then b else a))"

definition py_arith ::
  "(int \<Rightarrow> int \<Rightarrow> int) \<Rightarrow> (rat \<Rightarrow> rat \<Rightarrow> rat) \<Rightarrow> pyval \<Rightarrow> pyval \<Rightarrow> exn + pyval" where
  "py_arith fi fr a b = (case (int_of a, int_of b) of
      (Some x, Some y) \<Rightarrow> Inr (VInt (fi x y))
    | _ \<Rightarrow> (case (num_of a, num_of b) of
        (Some x, Some y) \<Rightarrow> Inr (VFloat (fr x y))
      | _ \<Rightarrow> Inl (Exn TypeError ''unsupported operand type(s)'')))"

definition py_sub :: "pyval \<Rightarrow> pyval \<Rightarrow> exn + pyval" where
  "py_sub a b = py_arith (\<lambda>x y. x - y) (\<lambda>x y. x - y) a b"

fun py_add :: "pyval \<Rightarrow> pyval \<Rightarrow> exn + pyval" where
  "py_add (VStr a) (VStr b) = Inr (VStr (a @ b))"
| "py_add (VList a) (VList b) = Inr (VList (a @ b))"
| "py_add (VTuple a) (VTuple b) = Inr (VTuple (a @ b))"
| "py_add a b = py_arith (\<lambda>x y. x + y) (\<lambda>x y. x + y) a b"

text \<open>\<open>a / b\<close>: true division, a float also for two ints.\<close>

definition py_truediv :: "pyval \<Rightarrow> pyval \<Rightarrow> exn + pyval" where
  "py_truediv a b = (case (num_of a, num_of b) of
      (Some x, Some y) \<Rightarrow>
        if y = 0 then Inl (Exn OtherError ''division by zero'') else Inr (VFloat (x / y))
    | _ \<Rightarrow> Inl (Exn TypeError ''unsupported operand type(s)''))"

text \<open>\<open>not v\<close>\<close>

fun py_not :: "pyval \<Rightarrow> bool" where
  "py_not VNone = True"
| "py_not (VBool b) = (\<not> b)"
| "py_not (VInt n) = (n = 0)"
| "py_not (VFloat q) = (q = 0)"
| "py_not (VStr s) = (s = [])"
| "py_not (VList xs) = (xs = [])"
| "py_not (VTuple xs) = (xs = [])"
| "py_not (VDict d) = (d = [])"
| "py_not (VRow r) = False"

text \<open>\<open>if not v: v = 0\<close>\<close>

definition or_zero :: "pyval \<Rightarrow> pyval" where
  "or_zero v = (if py_not v then VInt 0 else v)"

text \<open>\<open>int(v)\<close>: a float is truncated towards zero, a string is parsed.\<close>

definition py_int :: "node \<Rightarrow> pyval \<Rightarrow> exn + int" where
  "py_int nd v = (case v of
      VInt n \<Rightarrow> Inr n
    | VBool b \<Rightarrow> Inr (if b then 1 else 0)
    | VFloat q \<Rightarrow> Inr (if 0 \<le> q then \<lfloor>q\<rfloor> else \<lceil>q\<rceil>)
    | VStr s \<Rightarrow> (case int_of_str nd s of
         None \<Rightarrow> Inl (Exn ValueError ''invalid literal for int() with base 10'')
       | Some n \<Rightarrow> Inr n)
    | _ \<Rightarrow> Inl (Exn TypeError ''int() argument must be a string or a number''))"

text \<open>\<open>str(v)\<close>\<close>

definition py_str :: "node \<Rightarrow> pyval \<Rightarrow> string" where
  "py_str nd v = (case v of VStr s \<Rightarrow> s | _ \<Rightarrow> str_of nd v)"

text \<open>\<open>v[0]\<close>\<close>

definition py_index0 :: "pyval \<Rightarrow> exn + pyval" where
  "py_index0 v = (case v of
      VTuple xs \<Rightarrow> (case xs of [] \<Rightarrow> Inl (Exn IndexError ''tuple index out of range'')
                               | x # _ \<Rightarrow> Inr x)
    | VList xs \<Rightarrow> (case xs of [] \<Rightarrow> Inl (Exn IndexError ''list index out of range'')
                              | x # _ \<Rightarrow> Inr x)
    | VStr s \<Rightarrow> (case s of [] \<Rightarrow> Inl (Exn IndexError ''string index out of range'')
                            | c # _ \<Rightarrow> Inr (VStr [c]))
    | VRow r \<Rightarrow> Inr (VInt (block_height r))
    | VDict d \<Rightarrow> (case map_of d (VInt 0) of None \<Rightarrow> Inl (Exn KeyError ''0'') | Some x \<Rightarrow> Inr x)
    | _ \<Rightarrow> Inl (Exn TypeError ''object is not subscriptable''))"

text \<open>\<open>xs[i]\<close> on a list, for an index that is never negative.\<close>

definition list_index :: "'a list \<Rightarrow> nat \<Rightarrow> exn + 'a" where
  "list_index xs n = (if n < length xs then Inr (xs ! n)
                      else Inl (Exn IndexError ''list index out of range''))"

text \<open>The items \<open>for x in v\<close> runs through.\<close>

definition py_iter :: "pyval \<Rightarrow> exn + pyval list" where
  "py_iter v = (case v of
      VList xs \<Rightarrow> Inr xs
    | VTuple xs \<Rightarrow> Inr xs
    | VStr s \<Rightarrow> Inr (map (\<lambda>c. VStr [c]) s)
    | VDict d \<Rightarrow> Inr (map fst d)
    | _ \<Rightarrow> Inl (Exn TypeError ''object is not iterable''))"

text \<open>
  \<open>d[k]\<close> and \<open>del d[k]\<close> for a string key; \<open>d[k] = v\<close> is \<open>AList.update\<close>, which replaces
  the value in place or appends the item, as a dict does. Keys are compared
  structurally.
\<close>

definition dict_get :: "(pyval \<times> pyval) list \<Rightarrow> string \<Rightarrow> exn + pyval" where
  "dict_get d k = (case map_of d (VStr k) of
      None \<Rightarrow> Inl (Exn KeyError (apostrophe @ k @ apostrophe))
    | Some v \<Rightarrow> Inr v)"

definition dict_del :: "(pyval \<times> pyval) list \<Rightarrow> string \<Rightarrow> exn + (pyval \<times> pyval) list" where
  "dict_del d k = (case map_of d (VStr k) of
      None \<Rightarrow> Inl (Exn KeyError (apostrophe @ k @ apostrophe))
    | Some v \<Rightarrow> Inr (AList.delete (VStr k) d))"

subsection \<open>The ledger handle\<close>

text \<open>
  The statements this module passes to \<open>db_handler._execute_param\<close>, exactly as the
  source writes them.
\<close>

definition SQL_TX_SINCE :: string where
  "SQL_TX_SINCE = ''SELECT * FROM transactions WHERE block_height > ?''"

definition SQL_TX_RANGE :: string where
  "SQL_TX_RANGE = ''SELECT * FROM transactions WHERE block_height >= ? AND block_height < ?''"

definition SQL_DIFF_RANGE :: string where
  "SQL_DIFF_RANGE = ''SELECT difficulty FROM misc WHERE block_height >= ? AND block_height < ?''"

definition SQL_TX_OFLIKE :: string where
  "SQL_TX_OFLIKE = ''SELECT * FROM transactions WHERE block_height > ? and block_height <= ? and openfield like ?''"

definition SQL_TX_ADDRESS_SINCE :: string where
  "SQL_TX_ADDRESS_SINCE = ''SELECT * FROM transactions WHERE block_height > ? AND block_height <= ? AND ((address = ?) OR (recipient = ?)) ORDER BY block_height ASC''"

definition SQL_CREDIT :: string where
  "SQL_CREDIT = ''SELECT sum(amount)+sum(reward) FROM transactions WHERE recipient = ? and block_height <= ?''"

definition SQL_DEBIT :: string where
  "SQL_DEBIT = ''SELECT sum(amount)+sum(fee) FROM transactions WHERE address = ? and block_height <= ?;''"

definition SQL_RECEIVED :: string where
  "SQL_RECEIVED = ''SELECT sum(amount) FROM transactions WHERE recipient = ? and block_height <= ?;''"

text \<open>
  SQL \<open>LIKE\<close> as SQLite evaluates it: in the pattern \<open>%\<close> matches any run of characters,
  \<open>_\<close> any one character, and a letter of ASCII matches in either case
  (\<open>ascii_lower\<close> is the code of a character after folding A-Z onto a-z).
\<close>

definition ascii_lower :: "char \<Rightarrow> nat" where
  "ascii_lower c = (let n = (of_char c :: nat) in
                    if 65 \<le> n \<and> n \<le> 90 then n + 32 else n)"

fun sql_like :: "string \<Rightarrow> string \<Rightarrow> bool" where
  "sql_like [] [] = True"
| "sql_like [] (c # cs) = False"
| "sql_like (p # ps) [] = (p = CHR ''%'' \<and> sql_like ps [])"
| "sql_like (p # ps) (c # cs) =
     (if p = CHR ''%'' then sql_like ps (c # cs) \<or> sql_like (p # ps) cs
      else (p = CHR ''_'' \<or> ascii_lower p = ascii_lower c) \<and> sql_like ps cs)"

text \<open>
  An aggregate \<open>sum(col)\<close> over no row is NULL, and NULL + NULL is NULL; the cursor
  returns NULL as \<open>None\<close>.
\<close>

definition sql_sum :: "int list \<Rightarrow> int option" where
  "sql_sum xs = (if xs = [] then None else Some (sum_list xs))"

definition sql_plus :: "int option \<Rightarrow> int option \<Rightarrow> int option" where
  "sql_plus a b = (case (a, b) of (Some x, Some y) \<Rightarrow> Some (x + y) | _ \<Rightarrow> None)"

definition sql_out :: "int option \<Rightarrow> pyval" where
  "sql_out a = (case a of None \<Rightarrow> VNone | Some n \<Rightarrow> VInt n)"

text \<open>
  A TEXT column equals a bound parameter: the parameter is that string. (\<open>None\<close> binds
  NULL, which equals nothing; a number is taken to equal no address.)
\<close>

definition sql_text_eq :: "string \<Rightarrow> pyval \<Rightarrow> bool" where
  "sql_text_eq col p = (VStr col = p)"

text \<open>The cursor refuses to bind a container.\<close>

fun bindable :: "pyval \<Rightarrow> bool" where
  "bindable (VList xs) = False"
| "bindable (VTuple xs) = False"
| "bindable (VDict d) = False"
| "bindable (VRow r) = False"
| "bindable _ = True"

text \<open>
  What each statement selects. A height bound is a number on every path of this module
  (it is the result of arithmetic with an int); another value there is refused.
\<close>

definition run_sql :: "string \<Rightarrow> pyval list \<Rightarrow> world \<Rightarrow> exn + pyval list" where
  "run_sql q ps w =
    (if \<not> list_all bindable ps then Inl (Exn InterfaceError ''Error binding parameter'')
     else if q = SQL_TX_SINCE then
       (case map num_of ps of
          [Some lo] \<Rightarrow> Inr (map VRow (filter (\<lambda>r. of_int (block_height r) > lo) (transactions w)))
        | _ \<Rightarrow> Inl (Exn InterfaceError ''Incorrect bindings supplied''))
     else if q = SQL_TX_RANGE then
       (case map num_of ps of
          [Some lo, Some hi] \<Rightarrow>
            Inr (map VRow (filter (\<lambda>r. of_int (block_height r) \<ge> lo \<and> of_int (block_height r) < hi)
                             (transactions w)))
        | _ \<Rightarrow> Inl (Exn InterfaceError ''Incorrect bindings supplied''))
     else if q = SQL_DIFF_RANGE then
       (case map num_of ps of
          [Some lo, Some hi] \<Rightarrow>
            Inr (map (\<lambda>(h, d). VTuple [VFloat d])
                   (filter (\<lambda>(h, d). of_int h \<ge> lo \<and> of_int h < hi) (misc w)))
        | _ \<Rightarrow> Inl (Exn InterfaceError ''Incorrect bindings supplied''))
     else if q = SQL_TX_OFLIKE then
       (case ps of
          [a, b, VStr pat] \<Rightarrow>
            (case (num_of a, num_of b) of
               (Some lo, Some hi) \<Rightarrow>
                 Inr (map VRow (filter (\<lambda>r. of_int (block_height r) > lo
                                          \<and> of_int (block_height r) \<le> hi
                                          \<and> sql_like pat (openfield r)) (transactions w)))
             | _ \<Rightarrow> Inl (Exn InterfaceError ''Incorrect bindings supplied''))
        | _ \<Rightarrow> Inl (Exn InterfaceError ''Incorrect bindings supplied''))
     else if q = SQL_TX_ADDRESS_SINCE then
       (case ps of
          [a, b, ad1, ad2] \<Rightarrow>
            (case (num_of a, num_of b) of
               (Some lo, Some hi) \<Rightarrow>
                 Inr (map VRow (sort_key block_height
                        (filter (\<lambda>r. of_int (block_height r) > lo
                                    \<and> of_int (block_height r) \<le> hi
                                    \<and> (sql_text_eq (address r) ad1 \<or> sql_text_eq (recipient r) ad2))
                           (transactions w))))
             | _ \<Rightarrow> Inl (Exn InterfaceError ''Incorrect bindings supplied''))
        | _ \<Rightarrow> Inl (Exn InterfaceError ''Incorrect bindings supplied''))
     else if q = SQL_CREDIT then
       (case ps of
          [ad, b] \<Rightarrow>
            (case num_of b of
               Some hi \<Rightarrow>
                 (let rows = filter (\<lambda>r. sql_text_eq (recipient r) ad \<and> of_int (block_height r) \<le> hi)
                               (transactions w)
                  in Inr [VTuple [sql_out (sql_plus (sql_sum (map amount rows))
                                                     (sql_sum (map reward rows)))]])
             | None \<Rightarrow> Inl (Exn InterfaceError ''Incorrect bindings supplied''))
        | _ \<Rightarrow> Inl (Exn InterfaceError ''Incorrect bindings supplied''))
     else if q = SQL_DEBIT then
       (case ps of
          [ad, b] \<Rightarrow>
            (case num_of b of
               Some hi \<Rightarrow>
                 (let rows = filter (\<lambda>r. sql_text_eq (address r) ad \<and> of_int (block_height r) \<le> hi)
                               (transactions w)
                  in Inr [VTuple [sql_out (sql_plus (sql_sum (map amount rows))
                                                     (sql_sum (map fee rows)))]])
             | None \<Rightarrow> Inl (Exn InterfaceError ''Incorrect bindings supplied''))
        | _ \<Rightarrow> Inl (Exn InterfaceError ''Incorrect bindings supplied''))
     else if q = SQL_RECEIVED then
       (case ps of
          [ad, b] \<Rightarrow>
            (case num_of b of
               Some hi \<Rightarrow>
                 (let rows = filter (\<lambda>r. sql_text_eq (recipient r) ad \<and> of_int (block_height r) \<le> hi)
                               (transactions w)
                  in Inr [VTuple [sql_out (sql_sum (map amount rows))]])
             | None \<Rightarrow> Inl (Exn InterfaceError ''Incorrect bindings supplied''))
        | _ \<Rightarrow> Inl (Exn InterfaceError ''Incorrect bindings supplied''))
     else Inl (Exn OperationalError ''unknown statement''))"

text \<open>\<open>db_handler._execute_param(db_handler.h, q, ps)\<close>, \<open>db_handler.h.fetchall()\<close>, \<open>db_handler.h.fetchone()\<close>\<close>

definition execute_param :: "string \<Rightarrow> pyval list \<Rightarrow> unit act" where
  "execute_param q ps = (\<lambda>w.
     case run_sql q ps w of
       Inl e \<Rightarrow> (Inl e, w\<lparr>db_calls := db_calls w @ [Execute q ps]\<rparr>)
     | Inr rows \<Rightarrow> (Inr (), w\<lparr>cursor := rows, db_calls := db_calls w @ [Execute q ps]\<rparr>))"

definition fetchall :: "pyval list act" where
  "fetchall = (\<lambda>w. (Inr (cursor w), w\<lparr>cursor := []\<rparr>))"

definition fetchone :: "pyval act" where
  "fetchone = (\<lambda>w. case cursor w of
      [] \<Rightarrow> (Inr VNone, w)
    | r # rs \<Rightarrow> (Inr r, w\<lparr>cursor := rs\<rparr>))"

definition block_height_max :: "pyval act" where
  "block_height_max = (\<lambda>w. (Inr (VInt (height_max w)), w\<lparr>db_calls := db_calls w @ [BlockHeightMax]\<rparr>))"

definition db_known_address :: "node \<Rightarrow> pyval \<Rightarrow> pyval act" where
  "db_known_address nd a = (\<lambda>w.
     (known_address nd (transactions w) a, w\<lparr>db_calls := db_calls w @ [KnownAddress a]\<rparr>))"

definition db_pubkeyget :: "node \<Rightarrow> pyval \<Rightarrow> pyval act" where
  "db_pubkeyget nd a = (\<lambda>w.
     (pubkeyget nd (transactions w) a, w\<lparr>db_calls := db_calls w @ [PubkeyGet a]\<rparr>))"

text \<open>
  Modelled from the spec: \<open>DbHandler.get_address_range\<close> (libs/dbhandler.py) is not among
  the sources. The spec has it return, for one address, up to \<open>limit\<close> transactions
  starting at a given height: here the first \<open>limit\<close> rows, in storage order, at or above
  the starting height in which the address is sender or recipient.
\<close>

definition get_address_range :: "tx_row list \<Rightarrow> pyval \<Rightarrow> pyval \<Rightarrow> pyval \<Rightarrow> exn + pyval list" where
  "get_address_range txs a starting_block limit =
     (case (num_of starting_block, int_of limit) of
        (Some lo, Some n) \<Rightarrow>
          Inr (map VRow (take (nat n)
                 (filter (\<lambda>r. (sql_text_eq (address r) a \<or> sql_text_eq (recipient r) a)
                             \<and> of_int (block_height r) \<ge> lo) txs)))
      | _ \<Rightarrow> Inl (Exn InterfaceError ''Incorrect bindings supplied''))"

definition db_get_address_range :: "pyval \<Rightarrow> pyval \<Rightarrow> pyval \<Rightarrow> pyval list act" where
  "db_get_address_range a starting_block limit = (\<lambda>w.
     (get_address_range (transactions w) a starting_block limit,
      w\<lparr>db_calls := db_calls w @ [GetAddressRange a starting_block limit]\<rparr>))"

subsection \<open>blocktojsondiffs\<close>

text \<open>
  The local variables of the loop. \<open>fmt\<close> stands for
  \<open>Transaction.from_legacy(transaction).to_dict(legacy=True, decode_pubkey=True)\<close>.
  \<open>list(normal_transactions)\<close> and \<open>dict(block_dict)\<close> copy, so what is stored in
  \<open>blocks_dict\<close> is not touched by later iterations.
\<close>

record bstate =
  st_i :: nat
  st_blocks_dict :: "(pyval \<times> pyval) list"
  st_block_dict :: "(pyval \<times> pyval) list"
  st_normal_transactions :: "pyval list"
  st_old :: pyval

definition bstate_init :: bstate where
  "bstate_init = \<lparr>st_i = 0, st_blocks_dict = [], st_block_dict = [],
                  st_normal_transactions = [], st_old = VNone\<rparr>"

definition bstep ::
  "(pyval \<Rightarrow> (pyval \<times> pyval) list) \<Rightarrow> pyval list \<Rightarrow> bstate \<Rightarrow> pyval \<Rightarrow> exn + bstate" where
  "bstep fmt list_of_diffs st transaction =
     (let transaction_formatted = fmt transaction in
      ebind (dict_get transaction_formatted ''block_height'') (\<lambda>height.
      ebind (dict_del transaction_formatted ''block_height'') (\<lambda>tf.
      let st1 = (if st_old st \<noteq> height
                 then st\<lparr>st_block_dict := [], st_normal_transactions := []\<rparr> else st) in
      ebind (dict_get tf ''reward'') (\<lambda>rw.
      if rw = VStr ''0.00000000'' then
        ebind (dict_del tf ''block_hash'') (\<lambda>tf1.
        ebind (dict_del tf1 ''reward'') (\<lambda>tf2.
        Inr (st1\<lparr>st_normal_transactions := st_normal_transactions st1 @ [VDict tf2],
                 st_old := height\<rparr>)))
      else
        ebind (dict_del tf ''address'') (\<lambda>tf1.
        ebind (dict_del tf1 ''amount'') (\<lambda>tf2.
        ebind (list_index list_of_diffs (st_i st1)) (\<lambda>diff_row.
        ebind (py_index0 diff_row) (\<lambda>difficulty.
        let tf3 = AList.update (VStr ''difficulty'') difficulty tf2;
            bd1 = AList.update (VStr ''mining_tx'') (VDict tf3) (st_block_dict st1);
            bd2 = AList.update (VStr ''transactions'')
                    (VList (st_normal_transactions st1)) bd1
        in Inr (st1\<lparr>st_i := st_i st1 + 1,
                    st_blocks_dict := AList.update height (VDict bd2) (st_blocks_dict st1),
                    st_block_dict := bd2,
                    st_old := height\<rparr>)))))))))"

fun bloop ::
  "(pyval \<Rightarrow> (pyval \<times> pyval) list) \<Rightarrow> pyval list \<Rightarrow> bstate \<Rightarrow> pyval list \<Rightarrow> exn + bstate" where
  "bloop fmt list_of_diffs st [] = Inr st"
| "bloop fmt list_of_diffs st (transaction # rest) =
     ebind (bstep fmt list_of_diffs st transaction) (\<lambda>st'. bloop fmt list_of_diffs st' rest)"

definition blocktojsondiffs ::
  "(pyval \<Rightarrow> (pyval \<times> pyval) list) \<Rightarrow> pyval list \<Rightarrow> pyval list \<Rightarrow> exn + (pyval \<times> pyval) list" where
  "blocktojsondiffs fmt list_of_txs list_of_diffs =
     ebind (bloop fmt list_of_diffs bstate_init list_of_txs) (\<lambda>st. Inr (st_blocks_dict st))"

subsection \<open>The query handlers\<close>

text \<open>
  Every handler has the signature \<open>(socket_handler, db_handler, peers)\<close> and returns
  \<open>None\<close>. A \<open>try\<close> whose handler only re-raises is written without it; \<open>print\<close> is left
  out.
\<close>

definition api_ping :: "node \<Rightarrow> pyval act" where
  "api_ping nd = bnd (send (VStr ''api_pong'')) (\<lambda>_. ret VNone)"

definition api_getpeerinfo :: "node \<Rightarrow> pyval act" where
  "api_getpeerinfo nd = (\<lambda>w.
     bnd (send (VList (map (\<lambda>(n, ip). VDict [(VStr ''id'', VInt (int n)), (VStr ''addr'', ip),
                                              (VStr ''inbound'', VBool True)])
                         (enumerate 0 (consensus w)))))
       (\<lambda>_. ret VNone) w)"

definition api_getaddressinfo :: "node \<Rightarrow> pyval act" where
  "api_getaddressinfo nd =
     (let info = [(VStr ''known'', VBool False), (VStr ''pubkey'', VStr [])] in
      bnd receive (\<lambda>address.
      try_except
        (bnd (lift (address_is_valid nd address)) (\<lambda>valid.
           if \<not> valid then
             bnd (app_log_write INFO (''Bad address format <'' @ py_str nd address @ ''>'') []) (\<lambda>_.
             bnd (send (VDict info)) (\<lambda>_. ret VNone))
           else
             bnd (try_except
                    (bnd (db_known_address nd address) (\<lambda>known.
                     let info1 = AList.update (VStr ''known'') known info in
                     try_except
                       (bnd (db_pubkeyget nd address) (\<lambda>pubkey.
                          ret (AList.update (VStr ''pubkey'') pubkey info1)))
                       (\<lambda>e. bnd (app_log_write WARNING
                                   (''api_getaddressinfo: '' @ str_of_exn e) [])
                               (\<lambda>_. ret info1))))
                    (\<lambda>e. bnd (app_log_write WARNING (''api_getaddressinfo: '' @ str_of_exn e) [])
                            (\<lambda>_. ret info)))
               (\<lambda>info2. bnd (send (VDict info2)) (\<lambda>_. ret VNone))))
        (\<lambda>e. bnd (app_log_write WARNING (str_of_exn e) []) (\<lambda>_. ret VNone))))"

definition api_getaddressrange :: "node \<Rightarrow> pyval act" where
  "api_getaddressrange nd =
     bnd receive (\<lambda>address.
     bnd receive (\<lambda>starting_block.
     bnd receive (\<lambda>limit.
     bnd (lift (py_gt limit (VInt 500))) (\<lambda>over.
     let limit1 = (if over then VInt 500 else limit) in
     bnd (db_get_address_range address starting_block limit1) (\<lambda>txs.
     bnd (send (to_blocks_dict nd txs)) (\<lambda>_. ret VNone))))))"

definition api_getblockrange :: "node \<Rightarrow> pyval act" where
  "api_getblockrange nd =
     bnd receive (\<lambda>start_block.
     bnd receive (\<lambda>limit.
     bnd (lift (py_gt limit (VInt 50))) (\<lambda>over.
     let limit1 = (if over then VInt 50 else limit) in
     bnd (try_except
            (bnd (lift (py_add start_block limit1)) (\<lambda>stop1.
             bnd (execute_param SQL_TX_RANGE [start_block, stop1]) (\<lambda>_.
             bnd fetchall (\<lambda>raw_txs.
             bnd (lift (py_add start_block limit1)) (\<lambda>stop2.
             bnd (execute_param SQL_DIFF_RANGE [start_block, stop2]) (\<lambda>_.
             bnd fetchall (\<lambda>raw_diffs.
             bnd (lift (blocktojsondiffs (to_dict nd) raw_txs raw_diffs)) (\<lambda>blocks.
             ret (json_dumps nd (VDict blocks))))))))))
            (\<lambda>e. bnd (app_log_write WARNING (str_of_exn e) []) (\<lambda>_. raise e)))
       (\<lambda>reply. bnd (send reply) (\<lambda>_. ret VNone)))))"

definition api_getblocksince :: "node \<Rightarrow> pyval act" where
  "api_getblocksince nd =
     bnd receive (\<lambda>since_height.
     bnd block_height_max (\<lambda>hm.
     bnd (lift (py_sub hm (VInt 11))) (\<lambda>lo.
     bnd (lift (py_max lo since_height)) (\<lambda>block_height.
     bnd (execute_param SQL_TX_SINCE [block_height]) (\<lambda>_.
     bnd fetchall (\<lambda>info.
     let info1 = (if \<not> legacy_db nd then map (from_v2_to_tuple nd) info else info) in
     bnd (send (VList info1)) (\<lambda>_. ret VNone)))))))"

definition api_getblockswhereoflike :: "node \<Rightarrow> pyval act" where
  "api_getblockswhereoflike nd =
     bnd receive (\<lambda>v1.
     bnd (lift (py_int nd v1)) (\<lambda>since_height.
     bnd receive (\<lambda>v2.
     bnd (lift (py_add v2 (VStr ''%''))) (\<lambda>where_openfield_like.
     try_except
       (bnd (try_except
               (bnd block_height_max (\<lambda>hm.
                bnd (lift (py_min hm (VInt (since_height + 1440)))) (\<lambda>block_height.
                bnd (execute_param SQL_TX_OFLIKE
                       [VInt since_height, block_height, where_openfield_like]) (\<lambda>_.
                bnd fetchall (\<lambda>info.
                let info1 = (if \<not> legacy_db nd then map (from_v2_to_tuple nd) info else info) in
                ret (block_height, info1))))))
               (\<lambda>e. bnd (app_log_write WARNING (str_of_exn e) []) (\<lambda>_. raise e)))
          (\<lambda>(block_height, info1).
             bnd (send (VList (info1 @ [VList [block_height]]))) (\<lambda>_. ret VNone)))
       (\<lambda>e. bnd (app_log_write WARNING (str_of_exn e) []) (\<lambda>_.
             bnd (app_log_write WARNING (exc_info_line nd e) []) (\<lambda>_. raise e)))))))"

definition api_getaddresssince :: "node \<Rightarrow> pyval act" where
  "api_getaddresssince nd =
     bnd receive (\<lambda>v1.
     bnd (lift (py_int nd v1)) (\<lambda>since_height.
     bnd receive (\<lambda>v2.
     bnd (lift (py_int nd v2)) (\<lambda>min_confirmations.
     bnd receive (\<lambda>v3.
     let address = VStr (py_str nd v3) in
     bnd block_height_max (\<lambda>hm.
     bnd (lift (py_sub hm (VInt min_confirmations))) (\<lambda>hi.
     bnd (lift (py_min hi (VInt (since_height + 720)))) (\<lambda>block_height.
     bnd (execute_param SQL_TX_ADDRESS_SINCE
            [VInt since_height, block_height, address, address]) (\<lambda>_.
     bnd fetchall (\<lambda>info.
     let info1 = (if \<not> legacy_db nd then map (from_v2_to_tuple nd) info else info) in
     bnd (send (VDict [(VStr ''last'', block_height),
                       (VStr ''minconf'', VInt min_confirmations),
                       (VStr ''transactions'', VList info1)])) (\<lambda>_. ret VNone)))))))))))"

text \<open>\<open>_get_balance\<close> and \<open>_get_received\<close>, named without the underscore.\<close>

definition get_balance :: "node \<Rightarrow> pyval \<Rightarrow> pyval \<Rightarrow> pyval act" where
  "get_balance nd addr minconf =
     bnd block_height_max (\<lambda>hm.
     bnd (lift (py_sub hm minconf)) (\<lambda>max_block_height.
     bnd (execute_param SQL_CREDIT [addr, max_block_height]) (\<lambda>_.
     bnd fetchone (\<lambda>row1.
     bnd (lift (py_index0 row1)) (\<lambda>credit0.
     let credit = or_zero credit0 in
     bnd (execute_param SQL_DEBIT [addr, max_block_height]) (\<lambda>_.
     bnd fetchone (\<lambda>row2.
     bnd (lift (py_index0 row2)) (\<lambda>debit0.
     let debit = or_zero debit0 in
     lift (py_sub credit debit)))))))))"

text \<open>\<open>for address in addresses: balance += self._get_balance(db_handler, address, minconf)\<close>\<close>

fun balance_loop :: "node \<Rightarrow> pyval \<Rightarrow> pyval list \<Rightarrow> pyval \<Rightarrow> pyval act" where
  "balance_loop nd minconf [] balance = ret balance"
| "balance_loop nd minconf (addr # rest) balance =
     bnd (get_balance nd addr minconf) (\<lambda>b.
     bnd (lift (py_add balance b)) (\<lambda>balance1.
     balance_loop nd minconf rest balance1))"

definition api_getbalance :: "node \<Rightarrow> pyval act" where
  "api_getbalance nd =
     bnd receive (\<lambda>addresses.
     bnd receive (\<lambda>minconf.
     bnd (lift (py_lt minconf (VInt 1))) (\<lambda>low.
     let minconf1 = (if low then VInt 1 else minconf) in
     bnd (lift (py_iter addresses)) (\<lambda>items.
     bnd (balance_loop nd minconf1 items (VInt 0)) (\<lambda>balance.
     bnd (if \<not> legacy_db nd then lift (py_truediv balance (VInt 100000000)) else ret balance)
       (\<lambda>balance1.
     bnd (send balance1) (\<lambda>_. ret VNone)))))))"

definition get_received :: "node \<Rightarrow> pyval \<Rightarrow> pyval \<Rightarrow> pyval act" where
  "get_received nd addr minconf =
     bnd block_height_max (\<lambda>hm.
     bnd (lift (py_sub hm minconf)) (\<lambda>max_block_height.
     bnd (execute_param SQL_RECEIVED [addr, max_block_height]) (\<lambda>_.
     bnd fetchone (\<lambda>row1.
     bnd (lift (py_index0 row1)) (\<lambda>credit0.
     ret (or_zero credit0))))))"

fun received_loop :: "node \<Rightarrow> pyval \<Rightarrow> pyval list \<Rightarrow> pyval \<Rightarrow> pyval act" where
  "received_loop nd minconf [] received = ret received"
| "received_loop nd minconf (addr # rest) received =
     bnd (get_received nd addr minconf) (\<lambda>r.
     bnd (lift (py_add received r)) (\<lambda>received1.
     received_loop nd minconf rest received1))"

definition api_getreceived :: "node \<Rightarrow> pyval act" where
  "api_getreceived nd =
     bnd receive (\<lambda>addresses.
     bnd receive (\<lambda>minconf.
     bnd (lift (py_lt minconf (VInt 1))) (\<lambda>low.
     let minconf1 = (if low then VInt 1 else minconf) in
     bnd (lift (py_iter addresses)) (\<lambda>items.
     bnd (received_loop nd minconf1 items (VInt 0)) (\<lambda>received.
     bnd (if \<not> legacy_db nd then lift (py_truediv received (VInt 100000000)) else ret received)
       (\<lambda>received1.
     bnd (send received1) (\<lambda>_. ret VNone)))))))"

text \<open>The handlers above as attributes of the instance, for \<open>getattr\<close>.\<close>

definition api_attrs :: "node \<Rightarrow> string \<Rightarrow> attr option" where
  "api_attrs nd = map_of
     [(''api_ping'', Callable (api_ping nd)),
      (''api_getpeerinfo'', Callable (api_getpeerinfo nd)),
      (''api_getaddressinfo'', Callable (api_getaddressinfo nd)),
      (''api_getaddressrange'', Callable (api_getaddressrange nd)),
      (''api_getblockrange'', Callable (api_getblockrange nd)),
      (''api_getblocksince'', Callable (api_getblocksince nd)),
      (''api_getblockswhereoflike'', Callable (api_getblockswhereoflike nd)),
      (''api_getblocksafterwhere'', Callable (api_getblocksafterwhere nd)),
      (''api_getaddresssince'', Callable (api_getaddresssince nd)),
      (''api_getbalance'', Callable (api_getbalance nd)),
      (''api_getreceived'', Callable (api_getreceived nd)),
      (''api_gettransaction'', Callable (api_gettransaction nd)),
      (''api_gettransactionbysignature'', Callable (api_gettransactionbysignature nd))]"

subsection \<open>The aggregates as the specification words them\<close>

text \<open>
  Balance: the sum of amount + reward over the transactions received up to the height
  bound, minus the sum of amount + fee over the transactions sent up to it. Received:
  the sum of the amounts received. Over a list of addresses the values add up, with
  \<open>minconf\<close> below 1 read as 1.
\<close>

definition spec_balance :: "tx_row list \<Rightarrow> int \<Rightarrow> string \<Rightarrow> int \<Rightarrow> int" where
  "spec_balance txs max_height a minconf =
     (\<Sum>r\<leftarrow>filter (\<lambda>r. recipient r = a \<and> block_height r \<le> max_height - minconf) txs.
         amount r + reward r)
     - (\<Sum>r\<leftarrow>filter (\<lambda>r. address r = a \<and> block_height r \<le> max_height - minconf) txs.
         amount r + fee r)"

definition spec_received :: "tx_row list \<Rightarrow> int \<Rightarrow> string \<Rightarrow> int \<Rightarrow> int" where
  "spec_received txs max_height a minconf =
     (\<Sum>r\<leftarrow>filter (\<lambda>r. recipient r = a \<and> block_height r \<le> max_height - minconf) txs. amount r)"

definition spec_balance_total :: "tx_row list \<Rightarrow> int \<Rightarrow> string list \<Rightarrow> int \<Rightarrow> int" where
  "spec_balance_total txs max_height addrs minconf =
     (\<Sum>a\<leftarrow>addrs. spec_balance txs max_height a (max 1 minconf))"

definition spec_received_total :: "tx_row list \<Rightarrow> int \<Rightarrow> string list \<Rightarrow> int \<Rightarrow> int" where
  "spec_received_total txs max_height addrs minconf =
     (\<Sum>a\<leftarrow>addrs. spec_received txs max_height a (max 1 minconf))"

subsection \<open>Reading the rows given to blocktojsondiffs\<close>

text \<open>
  The height the formatted row reports, whether the row is reward-bearing (its reward is
  not the string \<open>0.00000000\<close>), the rows at the end of a sequence that report height
  \<open>h\<close>, and the two dicts a row is turned into: a normal transaction loses
  \<open>block_height\<close>, \<open>block_hash\<close> and \<open>reward\<close>; a mining transaction loses
  \<open>block_height\<close>, \<open>address\<close> and \<open>amount\<close> and gains \<open>difficulty\<close>.
\<close>

definition tx_height :: "(pyval \<Rightarrow> (pyval \<times> pyval) list) \<Rightarrow> pyval \<Rightarrow> pyval option" where
  "tx_height fmt r = map_of (fmt r) (VStr ''block_height'')"

definition is_mining :: "(pyval \<Rightarrow> (pyval \<times> pyval) list) \<Rightarrow> pyval \<Rightarrow> bool" where
  "is_mining fmt r = (map_of (fmt r) (VStr ''reward'') \<noteq> Some (VStr ''0.00000000''))"

definition same_height_run ::
  "(pyval \<Rightarrow> (pyval \<times> pyval) list) \<Rightarrow> pyval \<Rightarrow> pyval list \<Rightarrow> pyval list" where
  "same_height_run fmt h xs = rev (takeWhile (\<lambda>r. tx_height fmt r = Some h) (rev xs))"

definition normal_view :: "(pyval \<Rightarrow> (pyval \<times> pyval) list) \<Rightarrow> pyval \<Rightarrow> pyval" where
  "normal_view fmt r =
     VDict (AList.delete (VStr ''reward'') (AList.delete (VStr ''block_hash'')
              (AList.delete (VStr ''block_height'') (fmt r))))"

definition mining_view :: "(pyval \<Rightarrow> (pyval \<times> pyval) list) \<Rightarrow> pyval \<Rightarrow> pyval \<Rightarrow> pyval" where
  "mining_view fmt r d =
     VDict (AList.update (VStr ''difficulty'') d
              (AList.delete (VStr ''amount'') (AList.delete (VStr ''address'')
                 (AList.delete (VStr ''block_height'') (fmt r)))))"

text \<open>
  A row that the formatter reports at height \<open>h\<close> as a normal transaction, with the two
  items the loop deletes from it, and one it reports as reward-bearing, with the items
  the loop deletes from that.
\<close>

definition normal_row :: "(pyval \<Rightarrow> (pyval \<times> pyval) list) \<Rightarrow> pyval \<Rightarrow> pyval \<Rightarrow> bool" where
  "normal_row fmt r h \<longleftrightarrow>
     tx_height fmt r = Some h
     \<and> map_of (fmt r) (VStr ''reward'') = Some (VStr ''0.00000000'')
     \<and> map_of (fmt r) (VStr ''block_hash'') \<noteq> None"

definition mining_row :: "(pyval \<Rightarrow> (pyval \<times> pyval) list) \<Rightarrow> pyval \<Rightarrow> pyval \<Rightarrow> bool" where
  "mining_row fmt r h \<longleftrightarrow>
     tx_height fmt r = Some h
     \<and> map_of (fmt r) (VStr ''reward'') \<noteq> None
     \<and> is_mining fmt r
     \<and> map_of (fmt r) (VStr ''address'') \<noteq> None
     \<and> map_of (fmt r) (VStr ''amount'') \<noteq> None"

definition block_entry :: "pyval \<Rightarrow> pyval list \<Rightarrow> pyval" where
  "block_entry mining normals =
     VDict [(VStr ''mining_tx'', mining), (VStr ''transactions'', VList normals)]"

text \<open>
  What holds of the loop variables after the rows \<open>xs\<close>: \<open>block_dict\<close> is empty or has
  its two keys; \<open>i\<close> counts the reward-bearing rows; \<open>old\<close> is the height of the last row;
  \<open>normal_transactions\<close> holds the normal rows of the run of rows at that height that ends
  the sequence; the keys of \<open>blocks_dict\<close> are distinct and are heights of reward-bearing
  rows.
\<close>

definition bd_ok :: "(pyval \<times> pyval) list \<Rightarrow> bool" where
  "bd_ok bd \<longleftrightarrow> bd = [] \<or> (\<exists>a b. bd = [(VStr ''mining_tx'', a), (VStr ''transactions'', b)])"

definition loop_inv :: "(pyval \<Rightarrow> (pyval \<times> pyval) list) \<Rightarrow> pyval list \<Rightarrow> bstate \<Rightarrow> bool" where
  "loop_inv fmt xs st \<longleftrightarrow>
     bd_ok (st_block_dict st)
     \<and> st_i st = length (filter (is_mining fmt) xs)
     \<and> (if xs = [] then st_old st = VNone else tx_height fmt (last xs) = Some (st_old st))
     \<and> st_normal_transactions st =
         map (normal_view fmt) (filter (\<lambda>r. \<not> is_mining fmt r) (same_height_run fmt (st_old st) xs))
     \<and> distinct (map fst (st_blocks_dict st))
     \<and> fst ` set (st_blocks_dict st) \<subseteq> {h. \<exists>r \<in> set xs. tx_height fmt r = Some h \<and> is_mining fmt r}"

text \<open>\<open>s\<close> starts with the literal prefix \<open>p\<close>.\<close>

definition starts_with :: "string \<Rightarrow> string \<Rightarrow> bool" where
  "starts_with p s = (take (length p) s = p)"

subsection \<open>A formatter, a ledger and a node to run the functions on\<close>

text \<open>
  The codec of bismuthcore is a parameter of everything above (\<open>fmt\<close>, \<open>to_dict nd\<close>) and
  the properties below hold for whatever it returns. To run the functions, the examples
  use a formatter of their own, \<open>example_to_dict\<close>: the twelve columns under their names,
  the three amounts as decimal strings with eight places. It stands for no more than
  itself: the codec's dict may hold further items and other values.
\<close>

fun show_nat :: "nat \<Rightarrow> string" where
  "show_nat n = (if n < 10 then [''0123456789'' ! n]
                 else show_nat (n div 10) @ [''0123456789'' ! (n mod 10)])"

declare show_nat.simps [simp del]

definition int_to_f8 :: "int \<Rightarrow> string" where
  "int_to_f8 v =
     (let a = nat \<bar>v\<bar>; frac = show_nat (a mod 100000000) in
      (if v < 0 then ''-'' else []) @ show_nat (a div 100000000) @ ''.''
        @ replicate (8 - length frac) (CHR ''0'') @ frac)"

definition example_to_dict :: "pyval \<Rightarrow> (pyval \<times> pyval) list" where
  "example_to_dict v = (case v of
      VRow r \<Rightarrow>
        [(VStr ''block_height'', VInt (block_height r)),
         (VStr ''timestamp'', VFloat (timestamp r)),
         (VStr ''address'', VStr (address r)),
         (VStr ''recipient'', VStr (recipient r)),
         (VStr ''amount'', VStr (int_to_f8 (amount r))),
         (VStr ''signature'', VStr (signature r)),
         (VStr ''public_key'', VStr (public_key r)),
         (VStr ''block_hash'', VStr (block_hash r)),
         (VStr ''fee'', VStr (int_to_f8 (fee r))),
         (VStr ''reward'', VStr (int_to_f8 (reward r))),
         (VStr ''operation'', VStr (operation r)),
         (VStr ''openfield'', VStr (openfield r))]
    | _ \<Rightarrow> [])"

text \<open>
  What the loop makes of a dict of \<open>example_to_dict\<close>, written out: a normal transaction
  keeps nine fields, a mining transaction keeps nine others and has the difficulty last.
\<close>

definition example_normal_dict :: "tx_row \<Rightarrow> pyval" where
  "example_normal_dict r = VDict
     [(VStr ''timestamp'', VFloat (timestamp r)),
      (VStr ''address'', VStr (address r)),
      (VStr ''recipient'', VStr (recipient r)),
      (VStr ''amount'', VStr (int_to_f8 (amount r))),
      (VStr ''signature'', VStr (signature r)),
      (VStr ''public_key'', VStr (public_key r)),
      (VStr ''fee'', VStr (int_to_f8 (fee r))),
      (VStr ''operation'', VStr (operation r)),
      (VStr ''openfield'', VStr (openfield r))]"

definition example_mining_dict :: "tx_row \<Rightarrow> pyval \<Rightarrow> pyval" where
  "example_mining_dict r d = VDict
     [(VStr ''timestamp'', VFloat (timestamp r)),
      (VStr ''recipient'', VStr (recipient r)),
      (VStr ''signature'', VStr (signature r)),
      (VStr ''public_key'', VStr (public_key r)),
      (VStr ''block_hash'', VStr (block_hash r)),
      (VStr ''fee'', VStr (int_to_f8 (fee r))),
      (VStr ''reward'', VStr (int_to_f8 (reward r))),
      (VStr ''operation'', VStr (operation r)),
      (VStr ''openfield'', VStr (openfield r)),
      (VStr ''difficulty'', d)]"


definition mk_tx :: "int \<Rightarrow> string \<Rightarrow> string \<Rightarrow> int \<Rightarrow> int \<Rightarrow> int \<Rightarrow> string \<Rightarrow> tx_row" where
  "mk_tx h sender rcpt amt f rw opf =
     \<lparr>block_height = h, timestamp = 0, address = sender, recipient = rcpt, amount = amt,
      signature = [], public_key = [], block_hash = [], fee = f, reward = rw,
      operation = [], openfield = opf\<rparr>"

definition example_ledger :: "tx_row list" where
  "example_ledger =
     [mk_tx 1 ''alice'' ''bob'' 300 1 0 ''ab'',
      mk_tx 1 ''miner'' ''miner'' 0 0 1500 [],
      mk_tx 2 ''bob'' ''alice'' 100 1 0 ''xb'',
      mk_tx 2 ''miner'' ''miner'' 0 0 1500 [],
      mk_tx 3 ''alice'' ''carol'' 50 1 0 ''Abc'',
      mk_tx 3 ''miner'' ''miner'' 0 0 1500 []]"

definition long_ledger :: "tx_row list" where
  "long_ledger = map (\<lambda>h. mk_tx h ''miner'' ''miner'' 0 0 1500 [])
                   [1, 2, 3, 4, 5, 6, 7, 8, 9, 10, 11, 12]"

definition grouping_rows :: "pyval list" where
  "grouping_rows =
     [VRow (mk_tx 1 ''alice'' ''bob'' 300 1 0 ''ab''),
      VRow (mk_tx 1 ''bob'' ''alice'' 100 1 0 []),
      VRow (mk_tx 1 ''miner'' ''miner'' 0 0 5 []),
      VRow (mk_tx 2 ''miner'' ''miner'' 0 0 3 []),
      VRow (mk_tx 2 ''carol'' ''bob'' 7 1 0 []),
      VRow (mk_tx 3 ''alice'' ''carol'' 50 1 0 [])]"

definition grouping_diffs :: "pyval list" where
  "grouping_diffs = [VTuple [VFloat 10], VTuple [VFloat 11], VTuple [VFloat 12]]"

definition example_world :: "pyval list \<Rightarrow> world" where
  "example_world msgs =
     \<lparr>inbox = msgs, outbox = [], transactions = example_ledger,
      misc = [(1, 10), (2, 11), (3, 12)], height_max = 3, cursor = [], db_calls = [],
      consensus = [], app_log = []\<rparr>"

definition example_node :: node where
  "example_node =
     \<lparr>legacy_db = False,
      address_is_valid = (\<lambda>v. case v of VStr s \<Rightarrow> Inr (length s = 56)
                                 | _ \<Rightarrow> Inl (Exn TypeError ''expected string'')),
      known_address = (\<lambda>txs a. Inr (VBool (list_ex (\<lambda>r. VStr (address r) = a \<or> VStr (recipient r) = a) txs))),
      pubkeyget = (\<lambda>txs a. Inr (VStr [])),
      from_v2_to_tuple = (\<lambda>v. v),
      to_dict = example_to_dict,
      to_blocks_dict = VList,
      json_dumps = (\<lambda>v. v),
      int_of_str = (\<lambda>s. None),
      str_of = (\<lambda>v. []),
      exc_info_line = str_of_exn\<rparr>"

section \<open>Properties\<close>

subsection \<open>Evaluation rules for the primitives\<close>

lemmas act_defs = ret_def raise_def lift_def bnd_def try_except_def receive_def send_def app_log_write_def

lemma sql_differs:
  "SQL_CREDIT \<noteq> SQL_TX_SINCE" "SQL_CREDIT \<noteq> SQL_TX_RANGE" "SQL_CREDIT \<noteq> SQL_DIFF_RANGE"
  "SQL_CREDIT \<noteq> SQL_TX_OFLIKE" "SQL_CREDIT \<noteq> SQL_TX_ADDRESS_SINCE"
  "SQL_DEBIT \<noteq> SQL_TX_SINCE" "SQL_DEBIT \<noteq> SQL_TX_RANGE" "SQL_DEBIT \<noteq> SQL_DIFF_RANGE"
  "SQL_DEBIT \<noteq> SQL_TX_OFLIKE" "SQL_DEBIT \<noteq> SQL_TX_ADDRESS_SINCE" "SQL_DEBIT \<noteq> SQL_CREDIT"
  "SQL_RECEIVED \<noteq> SQL_TX_SINCE" "SQL_RECEIVED \<noteq> SQL_TX_RANGE" "SQL_RECEIVED \<noteq> SQL_DIFF_RANGE"
  "SQL_RECEIVED \<noteq> SQL_TX_OFLIKE" "SQL_RECEIVED \<noteq> SQL_TX_ADDRESS_SINCE"
  "SQL_RECEIVED \<noteq> SQL_CREDIT" "SQL_RECEIVED \<noteq> SQL_DEBIT"
  "SQL_TX_RANGE \<noteq> SQL_TX_SINCE" "SQL_DIFF_RANGE \<noteq> SQL_TX_SINCE" "SQL_DIFF_RANGE \<noteq> SQL_TX_RANGE"
  "SQL_TX_OFLIKE \<noteq> SQL_TX_SINCE" "SQL_TX_OFLIKE \<noteq> SQL_TX_RANGE" "SQL_TX_OFLIKE \<noteq> SQL_DIFF_RANGE"
  "SQL_TX_ADDRESS_SINCE \<noteq> SQL_TX_SINCE" "SQL_TX_ADDRESS_SINCE \<noteq> SQL_TX_RANGE"
  "SQL_TX_ADDRESS_SINCE \<noteq> SQL_DIFF_RANGE" "SQL_TX_ADDRESS_SINCE \<noteq> SQL_TX_OFLIKE"
  by (simp_all add: SQL_TX_SINCE_def SQL_TX_RANGE_def SQL_DIFF_RANGE_def SQL_TX_OFLIKE_def
        SQL_TX_ADDRESS_SINCE_def SQL_CREDIT_def SQL_DEBIT_def SQL_RECEIVED_def)

subsection \<open>Balance and received totals\<close>

lemma sum_list_add_map:
  "(\<Sum>r\<leftarrow>rows. f r + g r) = sum_list (map f rows) + (sum_list (map g rows) :: int)"
  by (induction rows) simp_all

lemma credit_or_zero:
  "or_zero (sql_out (sql_plus (sql_sum (map f rows)) (sql_sum (map g rows))))
     = VInt (\<Sum>r\<leftarrow>rows. f r + g r)"
  by (simp add: or_zero_def sql_out_def sql_plus_def sql_sum_def sum_list_add_map)

lemma received_or_zero:
  "or_zero (sql_out (sql_sum (map f rows))) = VInt (sum_list (map f rows))"
  by (simp add: or_zero_def sql_out_def sql_sum_def)

lemma run_sql_credit:
  "run_sql SQL_CREDIT [VStr a, VInt b] w =
     Inr [VTuple [sql_out (sql_plus
        (sql_sum (map amount (filter (\<lambda>r. recipient r = a \<and> block_height r \<le> b) (transactions w))))
        (sql_sum (map reward (filter (\<lambda>r. recipient r = a \<and> block_height r \<le> b) (transactions w)))))]]"
  by (simp add: run_sql_def sql_differs sql_text_eq_def Let_def)

lemma run_sql_debit:
  "run_sql SQL_DEBIT [VStr a, VInt b] w =
     Inr [VTuple [sql_out (sql_plus
        (sql_sum (map amount (filter (\<lambda>r. address r = a \<and> block_height r \<le> b) (transactions w))))
        (sql_sum (map fee (filter (\<lambda>r. address r = a \<and> block_height r \<le> b) (transactions w)))))]]"
  by (simp add: run_sql_def sql_differs sql_text_eq_def Let_def)

lemma run_sql_received:
  "run_sql SQL_RECEIVED [VStr a, VInt b] w =
     Inr [VTuple [sql_out (sql_sum (map amount
        (filter (\<lambda>r. recipient r = a \<and> block_height r \<le> b) (transactions w))))]]"
  by (simp add: run_sql_def sql_differs sql_text_eq_def Let_def)

lemma py_sub_int: "py_sub (VInt a) (VInt b) = Inr (VInt (a - b))"
  by (simp add: py_sub_def py_arith_def)

lemma py_arith_int: "py_arith fi fr (VInt a) (VInt b) = Inr (VInt (fi a b))"
  by (simp add: py_arith_def)

lemma py_add_int: "py_add (VInt a) (VInt b) = Inr (VInt (a + b))"
  by (simp add: py_arith_int)

lemma get_balance_str:
  "get_balance nd (VStr a) (VInt m) w =
     (Inr (VInt (spec_balance (transactions w) (height_max w) a m)),
      w\<lparr>cursor := [],
        db_calls := db_calls w @
          [BlockHeightMax,
           Execute SQL_CREDIT [VStr a, VInt (height_max w - m)],
           Execute SQL_DEBIT [VStr a, VInt (height_max w - m)]]\<rparr>)"
  by (simp add: get_balance_def act_defs block_height_max_def execute_param_def fetchone_def
        run_sql_credit run_sql_debit py_sub_int py_index0_def spec_balance_def credit_or_zero)


lemma get_received_str:
  "get_received nd (VStr a) (VInt m) w =
     (Inr (VInt (spec_received (transactions w) (height_max w) a m)),
      w\<lparr>cursor := [],
        db_calls := db_calls w @
          [BlockHeightMax, Execute SQL_RECEIVED [VStr a, VInt (height_max w - m)]]\<rparr>)"
  by (simp add: get_received_def act_defs block_height_max_def execute_param_def fetchone_def
        run_sql_received py_sub_int py_index0_def spec_received_def received_or_zero)

lemma balance_loop_str:
  "\<exists>w'. balance_loop nd (VInt m) (map VStr addrs) (VInt acc) w =
          (Inr (VInt (acc + (\<Sum>a\<leftarrow>addrs. spec_balance (transactions w) (height_max w) a m))), w')
       \<and> inbox w' = inbox w \<and> outbox w' = outbox w \<and> transactions w' = transactions w
       \<and> height_max w' = height_max w \<and> app_log w' = app_log w"
proof (induction addrs arbitrary: acc w)
  case Nil
  show ?case by (simp add: ret_def)
next
  case (Cons a addrs)
  let ?w1 = "w\<lparr>cursor := [],
        db_calls := db_calls w @
          [BlockHeightMax,
           Execute SQL_CREDIT [VStr a, VInt (height_max w - m)],
           Execute SQL_DEBIT [VStr a, VInt (height_max w - m)]]\<rparr>"
  let ?b = "spec_balance (transactions w) (height_max w) a m"
  have step: "balance_loop nd (VInt m) (map VStr (a # addrs)) (VInt acc) w =
              balance_loop nd (VInt m) (map VStr addrs) (VInt (acc + ?b)) ?w1"
    by (simp add: bnd_def lift_def get_balance_str py_arith_int)
  from Cons.IH [of "acc + ?b" ?w1] show ?case
    unfolding step by (auto simp: add.assoc)
qed

lemma received_loop_str:
  "\<exists>w'. received_loop nd (VInt m) (map VStr addrs) (VInt acc) w =
          (Inr (VInt (acc + (\<Sum>a\<leftarrow>addrs. spec_received (transactions w) (height_max w) a m))), w')
       \<and> inbox w' = inbox w \<and> outbox w' = outbox w \<and> transactions w' = transactions w
       \<and> height_max w' = height_max w \<and> app_log w' = app_log w"
proof (induction addrs arbitrary: acc w)
  case Nil
  show ?case by (simp add: ret_def)
next
  case (Cons a addrs)
  let ?w1 = "w\<lparr>cursor := [],
        db_calls := db_calls w @
          [BlockHeightMax, Execute SQL_RECEIVED [VStr a, VInt (height_max w - m)]]\<rparr>"
  let ?b = "spec_received (transactions w) (height_max w) a m"
  have step: "received_loop nd (VInt m) (map VStr (a # addrs)) (VInt acc) w =
              received_loop nd (VInt m) (map VStr addrs) (VInt (acc + ?b)) ?w1"
    by (simp add: bnd_def lift_def get_received_str py_arith_int)
  from Cons.IH [of "acc + ?b" ?w1] show ?case
    unfolding step by (auto simp: add.assoc)
qed

lemma clamp_minconf:
  "(if m < 1 then VInt 1 else VInt m) = VInt (max 1 m)"
  by (simp add: max_def)

text \<open>
  C2. For a list of addresses and a \<open>minconf\<close>, \<open>api_getbalance\<close> sends the sum over the
  addresses of (sum of amount + reward over the rows with that recipient and
  \<open>block_height \<le> height_max - minconf\<close>) minus (sum of amount + fee over the rows with that
  sender and the same height bound), with \<open>minconf\<close> below 1 read as 1, divided by 1e8
  when the node is not in legacy mode.
\<close>

theorem api_getbalance_formula:
  assumes "inbox w = VList (map VStr addrs) # VInt minconf # rest"
  shows "\<exists>w'. api_getbalance nd w = (Inr VNone, w')
           \<and> inbox w' = rest
           \<and> transactions w' = transactions w
           \<and> outbox w' = outbox w @
                 [if legacy_db nd
                  then VInt (spec_balance_total (transactions w) (height_max w) addrs minconf)
                  else VFloat (of_int (spec_balance_total (transactions w) (height_max w) addrs minconf)
                                 / 100000000)]"
proof -
  let ?w2 = "w\<lparr>inbox := rest\<rparr>"
  let ?m = "max 1 minconf"
  obtain w3 where loop:
      "balance_loop nd (VInt ?m) (map VStr addrs) (VInt 0) ?w2 =
         (Inr (VInt (0 + (\<Sum>a\<leftarrow>addrs. spec_balance (transactions ?w2) (height_max ?w2) a ?m))), w3)"
    and same: "inbox w3 = inbox ?w2" "outbox w3 = outbox ?w2" "transactions w3 = transactions ?w2"
    using balance_loop_str [of nd ?m addrs 0 ?w2] by blast
  have total: "(\<Sum>a\<leftarrow>addrs. spec_balance (transactions w) (height_max w) a ?m)
                 = spec_balance_total (transactions w) (height_max w) addrs minconf"
    by (simp add: spec_balance_total_def)
  have clamp: "(if minconf < 1 then VInt 1 else VInt minconf) = VInt ?m"
    by (rule clamp_minconf)
  show ?thesis
    using assms loop same total
    by (simp add: api_getbalance_def act_defs py_lt_def py_iter_def py_truediv_def clamp)
qed

theorem api_getbalance_formula_witness:
  "\<exists>w'. api_getbalance example_node
          (example_world [VList [VStr ''alice'', VStr ''bob''], VInt 0, VStr ''next'']) = (Inr VNone, w')
        \<and> inbox w' = [VStr ''next'']
        \<and> outbox w' = [VFloat (- 2 / 100000000)]"
proof -
  let ?w = "example_world [VList [VStr ''alice'', VStr ''bob''], VInt 0, VStr ''next'']"
  have inb: "inbox ?w = VList (map VStr [''alice'', ''bob'']) # VInt 0 # [VStr ''next'']"
    by (simp add: example_world_def)
  have total: "spec_balance_total (transactions ?w) (height_max ?w) [''alice'', ''bob''] 0 = - 2"
    by (simp add: example_world_def example_ledger_def mk_tx_def
          spec_balance_total_def spec_balance_def)
  have cfg: "\<not> legacy_db example_node" "outbox ?w = []"
    by (simp_all add: example_node_def example_world_def)
  from api_getbalance_formula [OF inb, of example_node] total cfg
  show ?thesis by auto
qed

text \<open>
  C7. For a list of addresses and a \<open>minconf\<close> (read as at least 1), \<open>api_getreceived\<close>
  sends only the credit term: the sum over the addresses of the amounts of the rows with
  that recipient and \<open>block_height \<le> height_max - minconf\<close>, with no debit, fee or reward
  term, divided by 1e8 when the node is not in legacy mode.
\<close>

theorem api_getreceived_formula:
  assumes "inbox w = VList (map VStr addrs) # VInt minconf # rest"
  shows "\<exists>w'. api_getreceived nd w = (Inr VNone, w')
           \<and> inbox w' = rest
           \<and> transactions w' = transactions w
           \<and> outbox w' = outbox w @
                 [if legacy_db nd
                  then VInt (spec_received_total (transactions w) (height_max w) addrs minconf)
                  else VFloat (of_int (spec_received_total (transactions w) (height_max w) addrs minconf)
                                 / 100000000)]"
proof -
  let ?w2 = "w\<lparr>inbox := rest\<rparr>"
  let ?m = "max 1 minconf"
  obtain w3 where loop:
      "received_loop nd (VInt ?m) (map VStr addrs) (VInt 0) ?w2 =
         (Inr (VInt (0 + (\<Sum>a\<leftarrow>addrs. spec_received (transactions ?w2) (height_max ?w2) a ?m))), w3)"
    and same: "inbox w3 = inbox ?w2" "outbox w3 = outbox ?w2" "transactions w3 = transactions ?w2"
    using received_loop_str [of nd ?m addrs 0 ?w2] by blast
  have total: "(\<Sum>a\<leftarrow>addrs. spec_received (transactions w) (height_max w) a ?m)
                 = spec_received_total (transactions w) (height_max w) addrs minconf"
    by (simp add: spec_received_total_def)
  have clamp: "(if minconf < 1 then VInt 1 else VInt minconf) = VInt ?m"
    by (rule clamp_minconf)
  show ?thesis
    using assms loop same total
    by (simp add: api_getreceived_def act_defs py_lt_def py_iter_def py_truediv_def clamp)
qed

theorem api_getreceived_formula_witness:
  "\<exists>w'. api_getreceived (example_node\<lparr>legacy_db := True\<rparr>)
          (example_world [VList [VStr ''alice'', VStr ''bob''], VInt (- 4)]) = (Inr VNone, w')
        \<and> inbox w' = []
        \<and> outbox w' = [VInt 400]"
proof -
  let ?w = "example_world [VList [VStr ''alice'', VStr ''bob''], VInt (- 4)]"
  have inb: "inbox ?w = VList (map VStr [''alice'', ''bob'']) # VInt (- 4) # []"
    by (simp add: example_world_def)
  have total: "spec_received_total (transactions ?w) (height_max ?w) [''alice'', ''bob''] (- 4) = 400"
    by (simp add: example_world_def example_ledger_def mk_tx_def
          spec_received_total_def spec_received_def)
  have cfg: "legacy_db (example_node\<lparr>legacy_db := True\<rparr>)" "outbox ?w = []"
    by (simp_all add: example_world_def)
  from api_getreceived_formula [OF inb, of "example_node\<lparr>legacy_db := True\<rparr>"] total cfg
  show ?thesis by auto
qed

subsection \<open>Dispatch\<close>

text \<open>
  C1. For every attribute table, command name and context, \<open>dispatch\<close> returns a value and
  never an exception. A name that is no attribute gives \<open>False\<close> and one warning in the
  log; so does an attribute that is \<open>None\<close>. When the handler raises, the exception is
  caught, a warning with the command name and the message of the exception is logged
  and \<open>False\<close> is returned. When the handler returns, its value is returned. After any
  dispatch a further command is dispatched as usual on the resulting context.
\<close>

theorem dispatch_never_raises:
  "(\<exists>v w'. dispatch attrs method w = (Inr v, w'))
   \<and> (attrs method = None \<longrightarrow>
        dispatch attrs method w =
          (Inr (VBool False),
           w\<lparr>app_log := app_log w @
              [(WARNING, ''Exception calling method '' @ method @ '': '' @ apostrophe
                  @ ''ApiHandler'' @ apostrophe @ '' object has no attribute ''
                  @ apostrophe @ method @ apostrophe, [])]\<rparr>))
   \<and> (attrs method = Some AttrNone \<longrightarrow>
        dispatch attrs method w =
          (Inr (VBool False),
           w\<lparr>app_log := app_log w @
              [(WARNING, ''API Method <'' @ method @ ''> does not exist.'', [])]\<rparr>))
   \<and> (\<forall>handler e w'. attrs method = Some (Callable handler) \<and> handler w = (Inl e, w') \<longrightarrow>
        dispatch attrs method w =
          (Inr (VBool False),
           w'\<lparr>app_log := app_log w' @
              [(WARNING, ''Exception calling method '' @ method @ '': '' @ str_of_exn e, [])]\<rparr>))
   \<and> (\<forall>handler v w'. attrs method = Some (Callable handler) \<and> handler w = (Inr v, w') \<longrightarrow>
        dispatch attrs method w = (Inr v, w'))
   \<and> (\<forall>method2 handler2 v2 w2.
        attrs method2 = Some (Callable handler2)
        \<and> handler2 (snd (dispatch attrs method w)) = (Inr v2, w2) \<longrightarrow>
        dispatch attrs method2 (snd (dispatch attrs method w)) = (Inr v2, w2))"
  by (auto simp: dispatch_def getattr_def act_defs
      split: option.splits attr.splits sum.splits prod.splits)

theorem dispatch_never_raises_witness:
  "dispatch (api_attrs example_node) ''api_nope'' (example_world []) =
     (Inr (VBool False),
      (example_world [])\<lparr>app_log :=
         [(WARNING, ''Exception calling method api_nope: '' @ apostrophe @ ''ApiHandler''
              @ apostrophe @ '' object has no attribute '' @ apostrophe @ ''api_nope''
              @ apostrophe, [])]\<rparr>)
   \<and> dispatch (\<lambda>n. Some AttrNone) ''callbacks'' (example_world []) =
     (Inr (VBool False),
      (example_world [])\<lparr>app_log :=
         [(WARNING, ''API Method <callbacks> does not exist.'', [])]\<rparr>)
   \<and> dispatch (api_attrs example_node) ''api_gettransaction'' (example_world []) =
     (Inr (VBool False),
      (example_world [])\<lparr>app_log :=
         [(WARNING, ''Exception calling method api_gettransaction: Do not use yet - Rewrite'', [])]\<rparr>)
   \<and> dispatch (api_attrs example_node) ''api_ping''
         (snd (dispatch (api_attrs example_node) ''api_gettransaction'' (example_world []))) =
     (Inr VNone,
      (example_world [])\<lparr>outbox := [VStr ''api_pong''], app_log :=
         [(WARNING, ''Exception calling method api_gettransaction: Do not use yet - Rewrite'', [])]\<rparr>)"
proof -
  let ?w = "example_world []"
  let ?t = "api_attrs example_node"
  have unknown: "?t ''api_nope'' = None"
    by (simp add: api_attrs_def)
  have raising: "?t ''api_gettransaction'' = Some (Callable (api_gettransaction example_node))"
      "api_gettransaction example_node ?w = (Inl (Exn ValueError ''Do not use yet - Rewrite''), ?w)"
    by (simp_all add: api_attrs_def api_gettransaction_def raise_def)
  have ping: "?t ''api_ping'' = Some (Callable (api_ping example_node))"
    by (simp add: api_attrs_def)
  have c1: "dispatch ?t ''api_nope'' ?w =
     (Inr (VBool False),
      ?w\<lparr>app_log := app_log ?w @
         [(WARNING, ''Exception calling method '' @ ''api_nope'' @ '': '' @ apostrophe
              @ ''ApiHandler'' @ apostrophe @ '' object has no attribute ''
              @ apostrophe @ ''api_nope'' @ apostrophe, [])]\<rparr>)"
    using dispatch_never_raises [of ?t "''api_nope''" ?w] unknown by blast
  have c2: "dispatch (\<lambda>n. Some AttrNone) ''callbacks'' ?w =
     (Inr (VBool False),
      ?w\<lparr>app_log := app_log ?w @
         [(WARNING, ''API Method <'' @ ''callbacks'' @ ''> does not exist.'', [])]\<rparr>)"
    using dispatch_never_raises [of "\<lambda>n. Some AttrNone" "''callbacks''" ?w] by blast
  have c3: "dispatch ?t ''api_gettransaction'' ?w =
     (Inr (VBool False),
      ?w\<lparr>app_log := app_log ?w @
         [(WARNING, ''Exception calling method '' @ ''api_gettransaction'' @ '': ''
              @ str_of_exn (Exn ValueError ''Do not use yet - Rewrite''), [])]\<rparr>)"
    using dispatch_never_raises [of ?t "''api_gettransaction''" ?w] raising by blast
  let ?w1 = "snd (dispatch ?t ''api_gettransaction'' ?w)"
  have "api_ping example_node ?w1 = (Inr VNone, ?w1\<lparr>outbox := outbox ?w1 @ [VStr ''api_pong'']\<rparr>)"
    by (simp add: api_ping_def bnd_def send_def ret_def)
  with dispatch_never_raises [of ?t "''api_gettransaction''" ?w] ping
  have c4: "dispatch ?t ''api_ping'' ?w1 =
              (Inr VNone, ?w1\<lparr>outbox := outbox ?w1 @ [VStr ''api_pong'']\<rparr>)"
    by blast
  have logs: "app_log ?w = []" "outbox ?w = []"
    by (simp_all add: example_world_def)
  show ?thesis
    using c1 c2 c3 c4 logs by simp
qed

subsection \<open>Disabled operations\<close>

text \<open>
  C4. The disabled operations fail for every input. \<open>api_gettransaction\<close> and
  \<open>api_gettransactionbysignature\<close> raise at once and leave the context as it was;
  \<open>api_getblocksafterwhere\<close> ends in an exception in every context, after reading its two
  parameters when they are there, and none of the three makes a request to the ledger
  handle: no statement is executed, so no text from the caller is.
\<close>

theorem disabled_operations_never_reach_storage:
  "api_gettransaction nd w = (Inl (Exn ValueError ''Do not use yet - Rewrite''), w)
   \<and> api_gettransactionbysignature nd w = (Inl (Exn ValueError ''Do not use yet - Rewrite''), w)
   \<and> (\<exists>e w'. api_getblocksafterwhere nd w = (Inl e, w')
         \<and> db_calls w' = db_calls w \<and> cursor w' = cursor w
         \<and> transactions w' = transactions w \<and> outbox w' = outbox w)
   \<and> api_getblocksafterwhere nd (w\<lparr>inbox := a # b # rest\<rparr>) =
        (Inl (Exn ValueError ''Unsafe, do not use yet''),
         w\<lparr>inbox := rest,
           app_log := app_log w @ [(WARNING, ''api_getblocksafterwhere'', [a, b])]\<rparr>)"
  by (auto simp: api_gettransaction_def api_gettransactionbysignature_def
        api_getblocksafterwhere_def act_defs split: list.splits)

subsection \<open>Address info\<close>

text \<open>
  C9. For an address string that the validator rejects, \<open>api_getaddressinfo\<close> sends exactly
  \<open>{'known': False, 'pubkey': ''}\<close> and asks the ledger handle nothing: neither
  \<open>known_address\<close> nor \<open>pubkeyget\<close> is called.
\<close>

theorem api_getaddressinfo_bad_format:
  assumes "inbox w = VStr a # rest"
    and "address_is_valid nd (VStr a) = Inr False"
  shows "api_getaddressinfo nd w =
           (Inr VNone,
            w\<lparr>inbox := rest,
              outbox := outbox w @ [VDict [(VStr ''known'', VBool False), (VStr ''pubkey'', VStr [])]],
              app_log := app_log w @ [(INFO, ''Bad address format <'' @ a @ ''>'', [])]\<rparr>)
         \<and> db_calls (snd (api_getaddressinfo nd w)) = db_calls w"
  using assms
  by (simp add: api_getaddressinfo_def act_defs py_str_def Let_def)

theorem api_getaddressinfo_bad_format_witness:
  "address_is_valid example_node (VStr ''not-an-address'') = Inr False
   \<and> api_getaddressinfo example_node (example_world [VStr ''not-an-address'']) =
       (Inr VNone,
        (example_world [])\<lparr>
          outbox := [VDict [(VStr ''known'', VBool False), (VStr ''pubkey'', VStr [])]],
          app_log := [(INFO, ''Bad address format <not-an-address>'', [])]\<rparr>)
   \<and> db_calls (snd (api_getaddressinfo example_node (example_world [VStr ''not-an-address'']))) = []"
proof -
  have bad: "address_is_valid example_node (VStr ''not-an-address'') = Inr False"
    by (simp add: example_node_def)
  have inb: "inbox (example_world [VStr ''not-an-address'']) = VStr ''not-an-address'' # []"
    by (simp add: example_world_def)
  from api_getaddressinfo_bad_format [OF inb bad] bad
  show ?thesis by (simp add: example_world_def)
qed

lemma api_getaddressinfo_valid_example:
  "db_calls (snd (api_getaddressinfo (example_node\<lparr>address_is_valid := (\<lambda>v. Inr True)\<rparr>)
       (example_world [VStr ''alice''])))
     = [KnownAddress (VStr ''alice''), PubkeyGet (VStr ''alice'')]"
  by (simp add: api_getaddressinfo_def act_defs db_known_address_def db_pubkeyget_def Let_def
        example_node_def example_world_def)
subsection \<open>Blocks since a height\<close>

lemma run_sql_tx_since:
  "run_sql SQL_TX_SINCE [VInt lo] w =
     Inr (map VRow (filter (\<lambda>r. lo < block_height r) (transactions w)))"
  by (simp add: run_sql_def)

lemma py_max_int: "py_max (VInt a) (VInt b) = Inr (VInt (max a b))"
  by (simp add: py_max_def py_gt_def py_lt_def ebind_def max_def)

lemma py_min_int: "py_min (VInt a) (VInt b) = Inr (VInt (min a b))"
  by (simp add: py_min_def py_lt_def ebind_def min_def)

text \<open>
  C3, as the code has it. \<open>api_getblocksince\<close> sends exactly the rows with \<open>block_height\<close>
  strictly above \<open>max(height_max - 11, since_height)\<close> (converted by the codec when the
  node is not in legacy mode). Every row sent is above \<open>since_height\<close> and above
  \<open>height_max - 11\<close>, and when no row of the ledger is above \<open>since_height\<close> the answer is
  the empty list: the recent window bounds the answer when the caller is far behind, it
  does not add rows for a caller that is caught up.
\<close>

theorem api_getblocksince_window:
  assumes "inbox w = VInt since # rest"
  shows "api_getblocksince nd w =
           (Inr VNone,
            w\<lparr>inbox := rest, cursor := [],
              db_calls := db_calls w @
                [BlockHeightMax, Execute SQL_TX_SINCE [VInt (max (height_max w - 11) since)]],
              outbox := outbox w @
                [VList ((if legacy_db nd then (\<lambda>rows. rows) else map (from_v2_to_tuple nd))
                   (map VRow (filter (\<lambda>r. max (height_max w - 11) since < block_height r)
                                (transactions w))))]\<rparr>)
         \<and> (\<forall>r \<in> set (filter (\<lambda>r. max (height_max w - 11) since < block_height r) (transactions w)).
               since < block_height r \<and> height_max w - 11 < block_height r)
         \<and> ((\<forall>r \<in> set (transactions w). block_height r \<le> since) \<longrightarrow>
               api_getblocksince nd w =
                 (Inr VNone,
                  w\<lparr>inbox := rest, cursor := [],
                    db_calls := db_calls w @
                      [BlockHeightMax, Execute SQL_TX_SINCE [VInt (max (height_max w - 11) since)]],
                    outbox := outbox w @ [VList []]\<rparr>))"
proof (intro conjI impI)
  show run: "api_getblocksince nd w =
           (Inr VNone,
            w\<lparr>inbox := rest, cursor := [],
              db_calls := db_calls w @
                [BlockHeightMax, Execute SQL_TX_SINCE [VInt (max (height_max w - 11) since)]],
              outbox := outbox w @
                [VList ((if legacy_db nd then (\<lambda>rows. rows) else map (from_v2_to_tuple nd))
                   (map VRow (filter (\<lambda>r. max (height_max w - 11) since < block_height r)
                                (transactions w))))]\<rparr>)"
    using assms
    by (simp add: api_getblocksince_def act_defs block_height_max_def execute_param_def
          fetchall_def run_sql_tx_since py_sub_int py_max_int)
  show "\<forall>r \<in> set (filter (\<lambda>r. max (height_max w - 11) since < block_height r) (transactions w)).
               since < block_height r \<and> height_max w - 11 < block_height r"
    by auto
  assume below: "\<forall>r \<in> set (transactions w). block_height r \<le> since"
  then have "filter (\<lambda>r. max (height_max w - 11) since < block_height r) (transactions w) = []"
    by (auto simp: filter_empty_conv)
  with run show "api_getblocksince nd w =
                 (Inr VNone,
                  w\<lparr>inbox := rest, cursor := [],
                    db_calls := db_calls w @
                      [BlockHeightMax, Execute SQL_TX_SINCE [VInt (max (height_max w - 11) since)]],
                    outbox := outbox w @ [VList []]\<rparr>)"
    by simp
qed

theorem api_getblocksince_window_witness:
  "outbox (snd (api_getblocksince example_node
       ((example_world [VInt 0])\<lparr>transactions := long_ledger, height_max := 12\<rparr>))) =
     [VList (map (\<lambda>h. VRow (mk_tx h ''miner'' ''miner'' 0 0 1500 []))
               [2, 3, 4, 5, 6, 7, 8, 9, 10, 11, 12])]
   \<and> outbox (snd (api_getblocksince example_node
       ((example_world [VInt 12])\<lparr>transactions := long_ledger, height_max := 12\<rparr>))) =
     [VList []]"
proof
  let ?w = "(example_world [VInt 0])\<lparr>transactions := long_ledger, height_max := 12\<rparr>"
  have inb: "inbox ?w = VInt 0 # []"
    by (simp add: example_world_def)
  show "outbox (snd (api_getblocksince example_node ?w)) =
     [VList (map (\<lambda>h. VRow (mk_tx h ''miner'' ''miner'' 0 0 1500 []))
               [2, 3, 4, 5, 6, 7, 8, 9, 10, 11, 12])]"
    unfolding conjunct1 [OF api_getblocksince_window [OF inb, of example_node]]
    by (simp add: example_world_def example_node_def long_ledger_def mk_tx_def)
next
  let ?w = "(example_world [VInt 12])\<lparr>transactions := long_ledger, height_max := 12\<rparr>"
  have inb: "inbox ?w = VInt 12 # []"
    by (simp add: example_world_def)
  have below: "\<forall>r \<in> set (transactions ?w). block_height r \<le> 12"
    by (simp add: long_ledger_def mk_tx_def)
  show "outbox (snd (api_getblocksince example_node ?w)) = [VList []]"
    unfolding api_getblocksince_window [OF inb, of example_node,
        THEN conjunct2, THEN conjunct2, THEN mp, OF below]
    by (simp add: example_world_def)
qed

text \<open>
  Worded with "at least the most recent 10 blocks", the property fails: with twelve
  blocks in the ledger and \<open>since_height\<close> equal to the current maximum 12, the answer
  is empty, though the row of block 12 is in the ledger.
\<close>

theorem api_getblocksince_caught_up_counterexample:
  "height_max ((example_world [VInt 12])\<lparr>transactions := long_ledger, height_max := 12\<rparr>) = 12
   \<and> mk_tx 12 ''miner'' ''miner'' 0 0 1500 [] \<in> set long_ledger
   \<and> block_height (mk_tx 12 ''miner'' ''miner'' 0 0 1500 []) = 12
   \<and> api_getblocksince example_node
        ((example_world [VInt 12])\<lparr>transactions := long_ledger, height_max := 12\<rparr>) =
       (Inr VNone,
        (example_world [])\<lparr>transactions := long_ledger, height_max := 12,
           db_calls := [BlockHeightMax, Execute SQL_TX_SINCE [VInt 12]],
           outbox := [VList []]\<rparr>)"
  by (simp add: api_getblocksince_def act_defs block_height_max_def execute_param_def
        fetchall_def run_sql_tx_since py_sub_int py_max_int
        example_world_def example_node_def long_ledger_def mk_tx_def)

subsection \<open>Blocks since a height, filtered on the openfield\<close>

lemma run_sql_tx_oflike:
  "run_sql SQL_TX_OFLIKE [VInt lo, VInt hi, VStr pat] w =
     Inr (map VRow (filter (\<lambda>r. lo < block_height r \<and> block_height r \<le> hi
                               \<and> sql_like pat (openfield r)) (transactions w)))"
  by (simp add: run_sql_def sql_differs)

lemma sql_like_percent: "sql_like ''%'' s"
  by (induction s) simp_all

lemma sql_like_literal_prefix:
  assumes "CHR ''%'' \<notin> set p" and "CHR ''_'' \<notin> set p"
  shows "sql_like (p @ ''%'') s
           \<longleftrightarrow> map ascii_lower (take (length p) s) = map ascii_lower p"
  using assms
proof (induction p arbitrary: s)
  case Nil
  then show ?case by (simp add: sql_like_percent)
next
  case (Cons c p)
  show ?case
  proof (cases s)
    case Nil
    with Cons.prems show ?thesis by auto
  next
    case (Cons d ds)
    with Cons.prems Cons.IH [of ds] show ?thesis by auto
  qed
qed

text \<open>
  What the handler does for a \<open>since_height\<close> and a string: the statement text is the
  constant of the source, the string arrives in the bound parameters with one \<open>%\<close>
  appended, the rows sent are those in
  \<open>(since_height, min(height_max, since_height + 1440)]\<close> whose openfield matches that
  pattern, and the upper bound is the last element. For a string without \<open>%\<close> and \<open>_\<close>
  the match is the prefix test up to the case of ASCII letters.
\<close>

lemma api_getblockswhereoflike_window:
  assumes "inbox w = VInt since # VStr p # rest"
  shows "api_getblockswhereoflike nd w =
           (Inr VNone,
            w\<lparr>inbox := rest, cursor := [],
              db_calls := db_calls w @
                [BlockHeightMax,
                 Execute SQL_TX_OFLIKE
                   [VInt since, VInt (min (height_max w) (since + 1440)), VStr (p @ ''%'')]],
              outbox := outbox w @
                [VList ((if legacy_db nd then (\<lambda>rows. rows) else map (from_v2_to_tuple nd))
                          (map VRow (filter (\<lambda>r. since < block_height r
                                \<and> block_height r \<le> min (height_max w) (since + 1440)
                                \<and> sql_like (p @ ''%'') (openfield r)) (transactions w)))
                        @ [VList [VInt (min (height_max w) (since + 1440))]])]\<rparr>)"
  using assms
  by (simp add: api_getblockswhereoflike_def act_defs block_height_max_def execute_param_def
        fetchall_def run_sql_tx_oflike py_min_int py_int_def)

lemma api_getblockswhereoflike_example:
  "outbox (snd (api_getblockswhereoflike example_node (example_world [VInt 1, VStr ''ab'']))) =
     [VList [VRow (mk_tx 3 ''alice'' ''carol'' 50 1 0 ''Abc''), VList [VInt 3]]]"
proof -
  let ?w = "example_world [VInt 1, VStr ''ab'']"
  have inb: "inbox ?w = VInt 1 # VStr ''ab'' # []"
    by (simp add: example_world_def)
  show ?thesis
    unfolding api_getblockswhereoflike_window [OF inb, of example_node]
    by (simp add: example_world_def example_node_def example_ledger_def mk_tx_def
          ascii_lower_def)
qed

text \<open>
  C6. The handler is to send exactly the rows of the window whose openfield begins with
  the given string (so says its docstring too). It does not: the string is bound as a
  \<open>LIKE\<close> pattern without escaping, so a \<open>%\<close> or \<open>_\<close> in it is a wildcard. On the example
  ledger, for \<open>since_height\<close> 0 and the string \<open>%b\<close>, the window is \<open>(0, 3]\<close>, no openfield
  in it begins with \<open>%b\<close>, and the handler sends the three rows whose openfield contains
  a \<open>b\<close>, followed by the upper bound 3.
\<close>

theorem api_getblockswhereoflike_wildcard_sent:
  "\<not> starts_with ''%b'' (openfield (mk_tx 1 ''alice'' ''bob'' 300 1 0 ''ab''))
   \<and> \<not> starts_with ''%b'' (openfield (mk_tx 2 ''bob'' ''alice'' 100 1 0 ''xb''))
   \<and> \<not> starts_with ''%b'' (openfield (mk_tx 3 ''alice'' ''carol'' 50 1 0 ''Abc''))
   \<and> api_getblockswhereoflike example_node (example_world [VInt 0, VStr ''%b'']) =
       (Inr VNone,
        (example_world [])\<lparr>
          db_calls := [BlockHeightMax, Execute SQL_TX_OFLIKE [VInt 0, VInt 3, VStr ''%b%'']],
          outbox := [VList [VRow (mk_tx 1 ''alice'' ''bob'' 300 1 0 ''ab''),
                            VRow (mk_tx 2 ''bob'' ''alice'' 100 1 0 ''xb''),
                            VRow (mk_tx 3 ''alice'' ''carol'' 50 1 0 ''Abc''),
                            VList [VInt 3]]]\<rparr>)"
  by (simp add: api_getblockswhereoflike_def act_defs block_height_max_def execute_param_def
        fetchall_def run_sql_tx_oflike py_min_int py_int_def starts_with_def
        example_world_def example_node_def example_ledger_def mk_tx_def ascii_lower_def)

subsection \<open>The decimal strings of amounts\<close>

lemma show_nat_nonempty: "show_nat n \<noteq> []"
  by (subst show_nat.simps) simp

lemma digit_not_zero:
  assumes "0 < n" and "n < 10"
  shows "''0123456789'' ! n \<noteq> CHR ''0''"
proof -
  from assms have "n \<in> {1, 2, 3, 4, 5, 6, 7, 8, 9}" by auto
  then show ?thesis by auto
qed

lemma show_nat_hd: "0 < n \<Longrightarrow> hd (show_nat n) \<noteq> CHR ''0''"
proof (induction n rule: show_nat.induct)
  case (1 n)
  show ?case
  proof (cases "n < 10")
    case True
    with "1.prems" digit_not_zero [of n] show ?thesis
      by (subst show_nat.simps) simp
  next
    case False
    then have "0 < n div 10" by simp
    with "1.IH" False have "hd (show_nat (n div 10)) \<noteq> CHR ''0''" by simp
    with False show ?thesis
      by (subst show_nat.simps) (simp add: show_nat_nonempty)
  qed
qed

lemma show_nat_0: "show_nat 0 = ''0''"
  by (subst show_nat.simps) simp

lemma replicate_7: "replicate 7 c = [c, c, c, c, c, c, c]"
  by (simp add: numeral_eq_Suc)

lemma int_to_f8_0: "int_to_f8 0 = ''0.00000000''"
  by (simp add: int_to_f8_def show_nat_0 replicate_7)

lemma int_to_f8_zero_iff: "int_to_f8 v = ''0.00000000'' \<longleftrightarrow> v = 0"
proof
  assume "v = 0"
  then show "int_to_f8 v = ''0.00000000''" by (simp add: int_to_f8_0)
next
  assume eq: "int_to_f8 v = ''0.00000000''"
  show "v = 0"
  proof (rule ccontr)
    assume nz: "v \<noteq> 0"
    define a where "a = nat \<bar>v\<bar>"
    define q where "q = a div 100000000"
    define m where "m = a mod 100000000"
    define k where "k = 8 - length (show_nat m)"
    from nz have apos: "0 < a" by (simp add: a_def)
    have shape: "int_to_f8 v = (if v < 0 then ''-'' else []) @ show_nat q @ ''.''
                    @ replicate k (CHR ''0'') @ show_nat m"
      by (simp add: int_to_f8_def Let_def a_def q_def m_def k_def)
    have pos: "\<not> v < 0"
    proof
      assume "v < 0"
      with shape eq show False by simp
    qed
    have q0: "q = 0"
    proof (rule ccontr)
      assume "q \<noteq> 0"
      then have "hd (show_nat q) \<noteq> CHR ''0''" by (simp add: show_nat_hd)
      moreover from shape eq pos have "hd (show_nat q) = CHR ''0''"
        by (cases "show_nat q") (simp_all add: show_nat_nonempty)
      ultimately show False by simp
    qed
    with apos have mpos: "0 < m"
      by (simp add: q_def m_def)
    from shape eq pos q0 have tail: "replicate k (CHR ''0'') @ show_nat m = ''00000000''"
      by (simp add: show_nat_0)
    have "set (show_nat m) \<subseteq> set (replicate k (CHR ''0'') @ show_nat m)" by simp
    also have "\<dots> = {CHR ''0''}" by (simp add: tail)
    finally have "hd (show_nat m) = CHR ''0''"
      using show_nat_nonempty [of m] by (cases "show_nat m") auto
    with show_nat_hd [OF mpos] show False by simp
  qed
qed

lemma tx_height_example: "tx_height example_to_dict (VRow r) = Some (VInt (block_height r))"
  by (simp add: tx_height_def example_to_dict_def)

lemma is_mining_example: "is_mining example_to_dict (VRow r) \<longleftrightarrow> reward r \<noteq> 0"
  by (simp add: is_mining_def example_to_dict_def int_to_f8_zero_iff)

subsection \<open>The block-grouping loop\<close>

lemma bd_ok_update:
  "bd_ok bd \<Longrightarrow>
     AList.update (VStr ''transactions'') b (AList.update (VStr ''mining_tx'') a bd)
       = [(VStr ''mining_tx'', a), (VStr ''transactions'', b)]"
  by (auto simp: bd_ok_def)

lemma cleared_fields:
  "st_i (if c then st\<lparr>st_block_dict := a, st_normal_transactions := b\<rparr> else st) = st_i st"
  "st_blocks_dict (if c then st\<lparr>st_block_dict := a, st_normal_transactions := b\<rparr> else st)
     = st_blocks_dict st"
  by simp_all

lemmas dict_defs = dict_get_def dict_del_def ebind_def delete_conv cleared_fields

lemma bstep_normal_eval:
  assumes "map_of (fmt r) (VStr ''block_height'') = Some h"
    and "map_of (fmt r) (VStr ''reward'') = Some (VStr ''0.00000000'')"
    and "map_of (fmt r) (VStr ''block_hash'') = Some bh"
  shows "bstep fmt dfs st r =
           Inr (st\<lparr>st_block_dict := (if st_old st \<noteq> h then [] else st_block_dict st),
                    st_normal_transactions :=
                      (if st_old st \<noteq> h then [] else st_normal_transactions st) @ [normal_view fmt r],
                    st_old := h\<rparr>)"
  using assms by (simp add: bstep_def dict_defs normal_view_def Let_def)

lemma bstep_mining_eval:
  assumes "map_of (fmt r) (VStr ''block_height'') = Some h"
    and "map_of (fmt r) (VStr ''reward'') = Some rw" and "rw \<noteq> VStr ''0.00000000''"
    and "map_of (fmt r) (VStr ''address'') = Some ad"
    and "map_of (fmt r) (VStr ''amount'') = Some am"
    and "list_index dfs (st_i st) = Inr row" and "py_index0 row = Inr d"
    and "bd_ok (st_block_dict st)"
  shows "bstep fmt dfs st r =
           Inr (st\<lparr>st_i := st_i st + 1,
                    st_blocks_dict := AList.update h
                       (block_entry (mining_view fmt r d)
                          (if st_old st \<noteq> h then [] else st_normal_transactions st))
                       (st_blocks_dict st),
                    st_block_dict := [(VStr ''mining_tx'', mining_view fmt r d),
                       (VStr ''transactions'',
                        VList (if st_old st \<noteq> h then [] else st_normal_transactions st))],
                    st_normal_transactions :=
                      (if st_old st \<noteq> h then [] else st_normal_transactions st),
                    st_old := h\<rparr>)"
  using assms(1-7) bd_ok_update [OF assms(8)]
  by (simp add: bstep_def dict_defs mining_view_def block_entry_def Let_def)

lemma bstep_cases:
  assumes ok: "bstep fmt dfs st r = Inr st'" and bd: "bd_ok (st_block_dict st)"
  obtains (normal) h where "tx_height fmt r = Some h" and "\<not> is_mining fmt r"
      and "st' = st\<lparr>st_block_dict := (if st_old st \<noteq> h then [] else st_block_dict st),
                    st_normal_transactions :=
                      (if st_old st \<noteq> h then [] else st_normal_transactions st) @ [normal_view fmt r],
                    st_old := h\<rparr>"
    | (mining) h row d where "tx_height fmt r = Some h" and "is_mining fmt r"
      and "list_index dfs (st_i st) = Inr row" and "py_index0 row = Inr d"
      and "st' = st\<lparr>st_i := st_i st + 1,
                    st_blocks_dict := AList.update h
                       (block_entry (mining_view fmt r d)
                          (if st_old st \<noteq> h then [] else st_normal_transactions st))
                       (st_blocks_dict st),
                    st_block_dict := [(VStr ''mining_tx'', mining_view fmt r d),
                       (VStr ''transactions'',
                        VList (if st_old st \<noteq> h then [] else st_normal_transactions st))],
                    st_normal_transactions :=
                      (if st_old st \<noteq> h then [] else st_normal_transactions st),
                    st_old := h\<rparr>"
proof -
  obtain h where h: "map_of (fmt r) (VStr ''block_height'') = Some h"
    using ok by (cases "map_of (fmt r) (VStr ''block_height'')")
      (simp_all add: bstep_def dict_defs Let_def)
  obtain rw where rw: "map_of (fmt r) (VStr ''reward'') = Some rw"
    using ok h by (cases "map_of (fmt r) (VStr ''reward'')")
      (simp_all add: bstep_def dict_defs Let_def)
  show thesis
  proof (cases "rw = VStr ''0.00000000''")
    case True
    obtain bh where bh: "map_of (fmt r) (VStr ''block_hash'') = Some bh"
      using ok h rw True by (cases "map_of (fmt r) (VStr ''block_hash'')")
        (simp_all add: bstep_def dict_defs Let_def)
    from bstep_normal_eval [where fmt=fmt and r=r and dfs=dfs and st=st, OF h rw [unfolded True] bh] ok
    have "st' = st\<lparr>st_block_dict := (if st_old st \<noteq> h then [] else st_block_dict st),
                    st_normal_transactions :=
                      (if st_old st \<noteq> h then [] else st_normal_transactions st) @ [normal_view fmt r],
                    st_old := h\<rparr>"
      by simp
    with h rw True show thesis
      by (intro normal [of h]) (simp_all add: tx_height_def is_mining_def)
  next
    case False
    obtain ad where ad: "map_of (fmt r) (VStr ''address'') = Some ad"
      using ok h rw False by (cases "map_of (fmt r) (VStr ''address'')")
        (simp_all add: bstep_def dict_defs Let_def)
    obtain am where am: "map_of (fmt r) (VStr ''amount'') = Some am"
      using ok h rw False ad by (cases "map_of (fmt r) (VStr ''amount'')")
        (simp_all add: bstep_def dict_defs Let_def)
    obtain row where row: "list_index dfs (st_i st) = Inr row"
      using ok h rw False ad am by (cases "list_index dfs (st_i st)")
        (simp_all add: bstep_def dict_defs Let_def)
    obtain d where d: "py_index0 row = Inr d"
      using ok h rw False ad am row by (cases "py_index0 row")
        (simp_all add: bstep_def dict_defs Let_def)
    from bstep_mining_eval [where fmt=fmt and r=r, OF h rw False ad am row d bd] ok
    have "st' = st\<lparr>st_i := st_i st + 1,
                    st_blocks_dict := AList.update h
                       (block_entry (mining_view fmt r d)
                          (if st_old st \<noteq> h then [] else st_normal_transactions st))
                       (st_blocks_dict st),
                    st_block_dict := [(VStr ''mining_tx'', mining_view fmt r d),
                       (VStr ''transactions'',
                        VList (if st_old st \<noteq> h then [] else st_normal_transactions st))],
                    st_normal_transactions :=
                      (if st_old st \<noteq> h then [] else st_normal_transactions st),
                    st_old := h\<rparr>"
      by simp
    with h rw False row d show thesis
      by (intro mining [of h row d]) (simp_all add: tx_height_def is_mining_def)
  qed
qed
lemma ebind_Inr: "ebind r f = Inr v \<longleftrightarrow> (\<exists>x. r = Inr x \<and> f x = Inr v)"
  by (cases r) (simp_all add: ebind_def)

lemma bloop_append:
  "bloop fmt dfs st (xs @ ys) = ebind (bloop fmt dfs st xs) (\<lambda>st'. bloop fmt dfs st' ys)"
proof (induction xs arbitrary: st)
  case Nil
  show ?case by (simp add: ebind_def)
next
  case (Cons x xs)
  show ?case
    by (cases "bstep fmt dfs st x") (simp_all add: ebind_def Cons.IH)
qed

lemma same_height_run_snoc:
  "same_height_run fmt h (xs @ [r]) =
     (if tx_height fmt r = Some h then same_height_run fmt h xs @ [r] else [])"
  by (simp add: same_height_run_def)

lemma same_height_run_other:
  assumes "xs = [] \<or> tx_height fmt (last xs) \<noteq> Some h"
  shows "same_height_run fmt h xs = []"
proof (cases xs rule: rev_cases)
  case Nil
  then show ?thesis by (simp add: same_height_run_def)
next
  case (snoc ys y)
  with assms show ?thesis by (simp add: same_height_run_snoc)
qed

lemma loop_inv_init: "loop_inv fmt [] bstate_init"
  by (simp add: loop_inv_def bstate_init_def bd_ok_def same_height_run_def)

lemma kept_normals:
  assumes "loop_inv fmt xs st"
  shows "(if st_old st \<noteq> h then [] else st_normal_transactions st) =
           map (normal_view fmt) (filter (\<lambda>r. \<not> is_mining fmt r) (same_height_run fmt h xs))"
proof (cases "st_old st = h")
  case True
  with assms show ?thesis by (simp add: loop_inv_def)
next
  case False
  with assms have "xs = [] \<or> tx_height fmt (last xs) \<noteq> Some h"
    by (auto simp: loop_inv_def split: if_splits)
  from same_height_run_other [OF this] False show ?thesis by simp
qed

lemma loop_inv_step:
  assumes inv: "loop_inv fmt xs st" and step: "bstep fmt dfs st r = Inr st'"
  shows "loop_inv fmt (xs @ [r]) st'"
proof -
  from inv have bd: "bd_ok (st_block_dict st)"
    by (simp add: loop_inv_def)
  from step bd show ?thesis
  proof (cases rule: bstep_cases)
    case (normal h)
    from inv normal(1,2) kept_normals [OF inv, of h] show ?thesis
      unfolding normal(3)
      by (auto simp: loop_inv_def bd_ok_def same_height_run_snoc)
  next
    case (mining h row d)
    from inv mining(1,2) kept_normals [OF inv, of h] show ?thesis
      unfolding mining(5)
      by (auto simp: loop_inv_def bd_ok_def same_height_run_snoc distinct_update dom_update)
  qed
qed

lemma loop_inv_bloop:
  assumes "loop_inv fmt xs st" and "bloop fmt dfs st ys = Inr st'"
  shows "loop_inv fmt (xs @ ys) st'"
  using assms
proof (induction ys arbitrary: xs st)
  case Nil
  then show ?case by simp
next
  case (Cons y ys)
  from Cons.prems(2) obtain st1 where
    s1: "bstep fmt dfs st y = Inr st1" and s2: "bloop fmt dfs st1 ys = Inr st'"
    by (auto simp: ebind_Inr)
  from Cons.IH [OF loop_inv_step [OF Cons.prems(1) s1] s2] show ?case by simp
qed

lemma bloop_keeps_entry:
  assumes "bloop fmt dfs st zs = Inr st'" and "bd_ok (st_block_dict st)"
    and "\<forall>z \<in> set zs. tx_height fmt z = Some h \<longrightarrow> \<not> is_mining fmt z"
  shows "map_of (st_blocks_dict st') h = map_of (st_blocks_dict st) h"
  using assms
proof (induction zs arbitrary: st)
  case Nil
  then show ?case by simp
next
  case (Cons z zs)
  from Cons.prems(1) obtain st1 where
    s1: "bstep fmt dfs st z = Inr st1" and s2: "bloop fmt dfs st1 zs = Inr st'"
    by (auto simp: ebind_Inr)
  from s1 Cons.prems(2)
  have "bd_ok (st_block_dict st1) \<and> map_of (st_blocks_dict st1) h = map_of (st_blocks_dict st) h"
  proof (cases rule: bstep_cases)
    case (normal k)
    with Cons.prems(2) show ?thesis by (simp add: bd_ok_def)
  next
    case (mining k row d)
    with Cons.prems(3) have "k \<noteq> h" by auto
    with mining show ?thesis by (simp add: bd_ok_def update_conv')
  qed
  with Cons.IH [OF s2] Cons.prems(3) show ?case by simp
qed

text \<open>
  C10. Whatever \<open>blocktojsondiffs\<close> returns has an entry for a height only if a
  reward-bearing row reports that height: a height all of whose rows are normal (such as
  a trailing group whose mining row is absent) has no entry. The entry of a height is
  written at its last reward-bearing row and holds that row as mining transaction, with
  the difficulty at the position given by the number of reward-bearing rows before it,
  and as transactions the normal rows of the run of rows at that height that precedes
  it: normal rows after it are not in the list. A run is a maximal sequence of
  consecutive rows of one height, which in a height-ordered input is the group of that
  height.
\<close>

theorem blocktojsondiffs_groups:
  assumes "blocktojsondiffs fmt rows dfs = Inr out"
  shows "(\<forall>h \<in> fst ` set out. \<exists>r \<in> set rows. tx_height fmt r = Some h \<and> is_mining fmt r)
       \<and> (\<forall>h. (\<forall>r \<in> set rows. tx_height fmt r = Some h \<longrightarrow> \<not> is_mining fmt r)
               \<longrightarrow> h \<notin> fst ` set out)
       \<and> (\<forall>xs m zs h.
             rows = xs @ m # zs \<and> tx_height fmt m = Some h \<and> is_mining fmt m
             \<and> (\<forall>z \<in> set zs. tx_height fmt z = Some h \<longrightarrow> \<not> is_mining fmt z)
             \<longrightarrow> (\<exists>row d. list_index dfs (length (filter (is_mining fmt) xs)) = Inr row
                    \<and> py_index0 row = Inr d
                    \<and> map_of out h =
                        Some (block_entry (mining_view fmt m d)
                                (map (normal_view fmt)
                                   (filter (\<lambda>r. \<not> is_mining fmt r) (same_height_run fmt h xs))))))"
proof -
  from assms obtain stf where
    run: "bloop fmt dfs bstate_init rows = Inr stf" and out: "out = st_blocks_dict stf"
    by (auto simp: blocktojsondiffs_def ebind_Inr)
  from loop_inv_bloop [OF loop_inv_init run] have inv: "loop_inv fmt rows stf"
    by simp
  have keys: "\<forall>h \<in> fst ` set out. \<exists>r \<in> set rows. tx_height fmt r = Some h \<and> is_mining fmt r"
    using inv out by (auto simp: loop_inv_def)
  have absent: "\<forall>h. (\<forall>r \<in> set rows. tx_height fmt r = Some h \<longrightarrow> \<not> is_mining fmt r)
                  \<longrightarrow> h \<notin> fst ` set out"
    using keys by blast
  have entry: "\<exists>row d. list_index dfs (length (filter (is_mining fmt) xs)) = Inr row
                  \<and> py_index0 row = Inr d
                  \<and> map_of out h =
                      Some (block_entry (mining_view fmt m d)
                              (map (normal_view fmt)
                                 (filter (\<lambda>r. \<not> is_mining fmt r) (same_height_run fmt h xs))))"
    if split: "rows = xs @ m # zs" and hm: "tx_height fmt m = Some h" and mm: "is_mining fmt m"
      and later: "\<forall>z \<in> set zs. tx_height fmt z = Some h \<longrightarrow> \<not> is_mining fmt z"
    for xs m zs h
  proof -
    from run split obtain st1 st2 where
      r1: "bloop fmt dfs bstate_init xs = Inr st1"
      and r2: "bstep fmt dfs st1 m = Inr st2"
      and r3: "bloop fmt dfs st2 zs = Inr stf"
      by (auto simp: bloop_append ebind_Inr)
    from loop_inv_bloop [OF loop_inv_init r1] have inv1: "loop_inv fmt xs st1"
      by simp
    then have bd1: "bd_ok (st_block_dict st1)" and i1: "st_i st1 = length (filter (is_mining fmt) xs)"
      by (simp_all add: loop_inv_def)
    from r2 bd1 show ?thesis
    proof (cases rule: bstep_cases)
      case (normal k)
      with mm show ?thesis by simp
    next
      case (mining k row d)
      from mining(1) hm have kh: "k = h" by simp
      have bd2: "bd_ok (st_block_dict st2)"
        unfolding mining(5) by (simp add: bd_ok_def)
      have "map_of (st_blocks_dict st2) h =
              Some (block_entry (mining_view fmt m d)
                      (map (normal_view fmt)
                         (filter (\<lambda>r. \<not> is_mining fmt r) (same_height_run fmt h xs))))"
        unfolding mining(5) using kept_normals [OF inv1, of h] kh
        by (simp add: update_conv')
      with bloop_keeps_entry [OF r3 bd2 later] mining(3,4) i1 out
      show ?thesis by auto
    qed
  qed
  from keys absent entry show ?thesis by blast
qed

lemma bstep_normal_row:
  assumes "normal_row fmt r h"
  shows "bstep fmt dfs st r =
           Inr (st\<lparr>st_block_dict := (if st_old st \<noteq> h then [] else st_block_dict st),
                    st_normal_transactions :=
                      (if st_old st \<noteq> h then [] else st_normal_transactions st) @ [normal_view fmt r],
                    st_old := h\<rparr>)"
proof -
  from assms obtain bh where
    "map_of (fmt r) (VStr ''block_height'') = Some h"
    "map_of (fmt r) (VStr ''reward'') = Some (VStr ''0.00000000'')"
    "map_of (fmt r) (VStr ''block_hash'') = Some bh"
    by (auto simp: normal_row_def tx_height_def)
  then show ?thesis by (rule bstep_normal_eval)
qed

lemma bstep_mining_row:
  assumes "mining_row fmt r h" and "st_i st < length dfs" and "dfs ! st_i st = VTuple (d # ds)"
    and "bd_ok (st_block_dict st)"
  shows "bstep fmt dfs st r =
           Inr (st\<lparr>st_i := st_i st + 1,
                    st_blocks_dict := AList.update h
                       (block_entry (mining_view fmt r d)
                          (if st_old st \<noteq> h then [] else st_normal_transactions st))
                       (st_blocks_dict st),
                    st_block_dict := [(VStr ''mining_tx'', mining_view fmt r d),
                       (VStr ''transactions'',
                        VList (if st_old st \<noteq> h then [] else st_normal_transactions st))],
                    st_normal_transactions :=
                      (if st_old st \<noteq> h then [] else st_normal_transactions st),
                    st_old := h\<rparr>)"
proof -
  from assms(1) obtain rw ad am where
    look: "map_of (fmt r) (VStr ''block_height'') = Some h"
      "map_of (fmt r) (VStr ''reward'') = Some rw" "rw \<noteq> VStr ''0.00000000''"
      "map_of (fmt r) (VStr ''address'') = Some ad"
      "map_of (fmt r) (VStr ''amount'') = Some am"
    by (auto simp: mining_row_def tx_height_def is_mining_def)
  from assms(2,3) have idx: "list_index dfs (st_i st) = Inr (VTuple (d # ds))"
      "py_index0 (VTuple (d # ds)) = Inr d"
    by (simp_all add: list_index_def py_index0_def)
  from look idx assms(4) show ?thesis by (rule bstep_mining_eval)
qed

lemma mining_view_fields:
  "\<exists>md. mining_view fmt r d = VDict md
      \<and> map_of md (VStr ''address'') = None \<and> map_of md (VStr ''amount'') = None
      \<and> map_of md (VStr ''difficulty'') = Some d
      \<and> (\<forall>k. k \<notin> {VStr ''block_height'', VStr ''address'', VStr ''amount'', VStr ''difficulty''}
             \<longrightarrow> map_of md k = map_of (fmt r) k)"
  by (simp add: mining_view_def update_conv' delete_conv')

lemma normal_view_fields:
  "\<exists>xd. normal_view fmt r = VDict xd
      \<and> map_of xd (VStr ''block_hash'') = None \<and> map_of xd (VStr ''reward'') = None
      \<and> (\<forall>k. k \<notin> {VStr ''block_height'', VStr ''block_hash'', VStr ''reward''}
             \<longrightarrow> map_of xd k = map_of (fmt r) k)"
  by (simp add: normal_view_def delete_conv')

text \<open>
  C5. Four rows: two rows the formatter reports as normal and then one it reports as
  reward-bearing, all at height 1, and one reward-bearing row at height 2, with a
  difficulty row for each block. The result has the two heights in this order; block 1
  has the third row as mining transaction, with the first difficulty, and the first two
  rows as transactions; block 2 has the fourth row with the second difficulty and no
  transaction. A mining transaction is the row's dict without \<open>address\<close> and \<open>amount\<close> and
  with \<open>difficulty\<close>, a normal transaction is the row's dict without \<open>block_hash\<close> and
  \<open>reward\<close> (both also without \<open>block_height\<close>), every other item as the formatter gave
  it. This holds for every formatter.
\<close>

theorem blocktojsondiffs_four_rows:
  assumes "normal_row fmt r1 (VInt 1)" and "normal_row fmt r2 (VInt 1)"
    and "mining_row fmt r3 (VInt 1)" and "mining_row fmt r4 (VInt 2)"
  shows "blocktojsondiffs fmt [r1, r2, r3, r4] (VTuple [d1] # VTuple [d2] # further)
         = Inr [(VInt 1, VDict [(VStr ''mining_tx'', mining_view fmt r3 d1),
                                (VStr ''transactions'',
                                 VList [normal_view fmt r1, normal_view fmt r2])]),
                (VInt 2, VDict [(VStr ''mining_tx'', mining_view fmt r4 d2),
                                (VStr ''transactions'', VList [])])]
       \<and> (\<forall>r d. \<exists>md. mining_view fmt r d = VDict md
              \<and> map_of md (VStr ''address'') = None \<and> map_of md (VStr ''amount'') = None
              \<and> map_of md (VStr ''difficulty'') = Some d
              \<and> (\<forall>k. k \<notin> {VStr ''block_height'', VStr ''address'', VStr ''amount'',
                           VStr ''difficulty''}
                     \<longrightarrow> map_of md k = map_of (fmt r) k))
       \<and> (\<forall>r. \<exists>xd. normal_view fmt r = VDict xd
              \<and> map_of xd (VStr ''block_hash'') = None \<and> map_of xd (VStr ''reward'') = None
              \<and> (\<forall>k. k \<notin> {VStr ''block_height'', VStr ''block_hash'', VStr ''reward''}
                     \<longrightarrow> map_of xd k = map_of (fmt r) k))"
proof (intro conjI allI)
  let ?dfs = "VTuple [d1] # VTuple [d2] # further"
  note n1 = bstep_normal_row [OF assms(1), of ?dfs]
  note n2 = bstep_normal_row [OF assms(2), of ?dfs]
  note m3 = bstep_mining_row [OF assms(3), of _ ?dfs]
  note m4 = bstep_mining_row [OF assms(4), of _ ?dfs]
  show "blocktojsondiffs fmt [r1, r2, r3, r4] ?dfs
         = Inr [(VInt 1, VDict [(VStr ''mining_tx'', mining_view fmt r3 d1),
                                (VStr ''transactions'',
                                 VList [normal_view fmt r1, normal_view fmt r2])]),
                (VInt 2, VDict [(VStr ''mining_tx'', mining_view fmt r4 d2),
                                (VStr ''transactions'', VList [])])]"
    by (simp add: blocktojsondiffs_def bstate_init_def ebind_def n1 n2 m3 m4 bd_ok_def
          block_entry_def)
next
  fix r d
  show "\<exists>md. mining_view fmt r d = VDict md
              \<and> map_of md (VStr ''address'') = None \<and> map_of md (VStr ''amount'') = None
              \<and> map_of md (VStr ''difficulty'') = Some d
              \<and> (\<forall>k. k \<notin> {VStr ''block_height'', VStr ''address'', VStr ''amount'',
                           VStr ''difficulty''}
                     \<longrightarrow> map_of md k = map_of (fmt r) k)"
    by (rule mining_view_fields)
next
  fix r
  show "\<exists>xd. normal_view fmt r = VDict xd
              \<and> map_of xd (VStr ''block_hash'') = None \<and> map_of xd (VStr ''reward'') = None
              \<and> (\<forall>k. k \<notin> {VStr ''block_height'', VStr ''block_hash'', VStr ''reward''}
                     \<longrightarrow> map_of xd k = map_of (fmt r) k)"
    by (rule normal_view_fields)
qed

lemma normal_view_example: "normal_view example_to_dict (VRow r) = example_normal_dict r"
  by (simp add: normal_view_def example_to_dict_def example_normal_dict_def)

lemma mining_view_example: "mining_view example_to_dict (VRow r) d = example_mining_dict r d"
  by (simp add: mining_view_def example_to_dict_def example_mining_dict_def)

lemma normal_row_example:
  "normal_row example_to_dict (VRow r) h \<longleftrightarrow> h = VInt (block_height r) \<and> reward r = 0"
  by (auto simp: normal_row_def tx_height_example example_to_dict_def int_to_f8_zero_iff)

lemma mining_row_example:
  "mining_row example_to_dict (VRow r) h \<longleftrightarrow> h = VInt (block_height r) \<and> reward r \<noteq> 0"
  by (auto simp: mining_row_def tx_height_example is_mining_example example_to_dict_def)

lemma bstep_example_normal:
  assumes "reward r = 0"
  shows "bstep example_to_dict dfs st (VRow r) =
           Inr (st\<lparr>st_block_dict := (if st_old st \<noteq> VInt (block_height r) then [] else st_block_dict st),
                    st_normal_transactions :=
                      (if st_old st \<noteq> VInt (block_height r) then [] else st_normal_transactions st)
                        @ [example_normal_dict r],
                    st_old := VInt (block_height r)\<rparr>)"
  using bstep_normal_row [of example_to_dict "VRow r" "VInt (block_height r)" dfs st] assms
  by (simp add: normal_row_example normal_view_example)

lemma bstep_example_mining:
  assumes "reward r \<noteq> 0" and "st_i st < length dfs" and "dfs ! st_i st = VTuple (d # ds)"
    and "bd_ok (st_block_dict st)"
  shows "bstep example_to_dict dfs st (VRow r) =
           Inr (st\<lparr>st_i := st_i st + 1,
                    st_blocks_dict := AList.update (VInt (block_height r))
                       (block_entry (example_mining_dict r d)
                          (if st_old st \<noteq> VInt (block_height r) then [] else st_normal_transactions st))
                       (st_blocks_dict st),
                    st_block_dict := [(VStr ''mining_tx'', example_mining_dict r d),
                       (VStr ''transactions'',
                        VList (if st_old st \<noteq> VInt (block_height r) then []
                               else st_normal_transactions st))],
                    st_normal_transactions :=
                      (if st_old st \<noteq> VInt (block_height r) then [] else st_normal_transactions st),
                    st_old := VInt (block_height r)\<rparr>)"
  using bstep_mining_row [of example_to_dict "VRow r" "VInt (block_height r)" st dfs d ds] assms
  by (simp add: mining_row_example mining_view_example)

theorem blocktojsondiffs_four_rows_witness:
  "blocktojsondiffs example_to_dict
     [VRow (mk_tx 1 ''alice'' ''bob'' 300 1 0 ''ab''), VRow (mk_tx 1 ''bob'' ''alice'' 100 1 0 []),
      VRow (mk_tx 1 ''miner'' ''miner'' 0 0 5 []), VRow (mk_tx 2 ''miner'' ''miner'' 0 0 3 [])]
     [VTuple [VFloat 10], VTuple [VFloat 11]]
   = Inr [(VInt 1, VDict [(VStr ''mining_tx'', example_mining_dict (mk_tx 1 ''miner'' ''miner'' 0 0 5 []) (VFloat 10)),
                          (VStr ''transactions'',
                           VList [example_normal_dict (mk_tx 1 ''alice'' ''bob'' 300 1 0 ''ab''),
                                  example_normal_dict (mk_tx 1 ''bob'' ''alice'' 100 1 0 [])])]),
          (VInt 2, VDict [(VStr ''mining_tx'', example_mining_dict (mk_tx 2 ''miner'' ''miner'' 0 0 3 []) (VFloat 11)),
                          (VStr ''transactions'', VList [])])]"
proof -
  have rows: "normal_row example_to_dict (VRow (mk_tx 1 ''alice'' ''bob'' 300 1 0 ''ab'')) (VInt 1)"
      "normal_row example_to_dict (VRow (mk_tx 1 ''bob'' ''alice'' 100 1 0 [])) (VInt 1)"
      "mining_row example_to_dict (VRow (mk_tx 1 ''miner'' ''miner'' 0 0 5 [])) (VInt 1)"
      "mining_row example_to_dict (VRow (mk_tx 2 ''miner'' ''miner'' 0 0 3 [])) (VInt 2)"
    by (simp_all add: normal_row_example mining_row_example mk_tx_def)
  show ?thesis
    unfolding blocktojsondiffs_four_rows [OF rows, of "VFloat 10" "VFloat 11" "[]", THEN conjunct1]
    by (simp add: normal_view_example mining_view_example)
qed

lemma blocktojsondiffs_short_diffs:
  "blocktojsondiffs example_to_dict [VRow (mk_tx 1 ''miner'' ''miner'' 0 0 5 [])] []
     = Inl (Exn IndexError ''list index out of range'')"
  by (simp add: blocktojsondiffs_def bstate_init_def bstep_def dict_defs example_to_dict_def
        Let_def list_index_def int_to_f8_zero_iff mk_tx_def)

theorem blocktojsondiffs_groups_witness:
  "\<exists>out. blocktojsondiffs example_to_dict grouping_rows grouping_diffs = Inr out
      \<and> VInt 3 \<notin> fst ` set out
      \<and> map_of out (VInt 2) =
          Some (block_entry (example_mining_dict (mk_tx 2 ''miner'' ''miner'' 0 0 3 []) (VFloat 11)) [])"
proof -
  have "\<exists>out. blocktojsondiffs example_to_dict grouping_rows grouping_diffs = Inr out"
    by (simp add: blocktojsondiffs_def bstate_init_def ebind_def bstep_example_normal
          bstep_example_mining bd_ok_def grouping_rows_def grouping_diffs_def mk_tx_def)
  then obtain out where out: "blocktojsondiffs example_to_dict grouping_rows grouping_diffs = Inr out"
    by (rule exE)
  note th = blocktojsondiffs_groups [OF out]
  have normal3: "\<forall>r \<in> set grouping_rows. tx_height example_to_dict r = Some (VInt 3)
          \<longrightarrow> \<not> is_mining example_to_dict r"
    by (simp add: grouping_rows_def tx_height_example is_mining_example mk_tx_def)
  have no3: "VInt 3 \<notin> fst ` set out"
    by (rule th [THEN conjunct2, THEN conjunct1, THEN spec, THEN mp, OF normal3])
  let ?xs = "[VRow (mk_tx 1 ''alice'' ''bob'' 300 1 0 ''ab''),
              VRow (mk_tx 1 ''bob'' ''alice'' 100 1 0 []),
              VRow (mk_tx 1 ''miner'' ''miner'' 0 0 5 [])]"
  let ?m = "VRow (mk_tx 2 ''miner'' ''miner'' 0 0 3 [])"
  let ?zs = "[VRow (mk_tx 2 ''carol'' ''bob'' 7 1 0 []), VRow (mk_tx 3 ''alice'' ''carol'' 50 1 0 [])]"
  have split: "grouping_rows = ?xs @ ?m # ?zs \<and> tx_height example_to_dict ?m = Some (VInt 2)
          \<and> is_mining example_to_dict ?m
          \<and> (\<forall>z \<in> set ?zs. tx_height example_to_dict z = Some (VInt 2) \<longrightarrow> \<not> is_mining example_to_dict z)"
    by (simp add: grouping_rows_def tx_height_example is_mining_example mk_tx_def)
  have entry: "map_of out (VInt 2) =
          Some (block_entry (example_mining_dict (mk_tx 2 ''miner'' ''miner'' 0 0 3 []) (VFloat 11)) [])"
    using th [THEN conjunct2, THEN conjunct2, rule_format, OF split]
    by (simp add: grouping_diffs_def is_mining_example tx_height_example same_height_run_def
          list_index_def py_index0_def mining_view_example mk_tx_def)
  from out no3 entry show ?thesis
    by (intro exI [of _ out] conjI)
qed

text \<open>
  The function returns whenever every row is one the formatter reports as normal or as
  reward-bearing, with the items the loop deletes, and there is a difficulty row, a
  tuple with a first component, for each reward-bearing row. With fewer difficulty rows
  it raises \<open>IndexError\<close>.
\<close>

lemma bloop_returns:
  assumes "loop_inv fmt xs st"
    and "\<forall>r \<in> set rs. \<exists>h. normal_row fmt r h \<or> mining_row fmt r h"
    and "length (filter (is_mining fmt) (xs @ rs)) \<le> length dfs"
    and "\<forall>d \<in> set dfs. \<exists>v vs. d = VTuple (v # vs)"
  shows "\<exists>st'. bloop fmt dfs st rs = Inr st'"
  using assms(1,2,3)
proof (induction rs arbitrary: xs st)
  case Nil
  show ?case by simp
next
  case (Cons r rs)
  from Cons.prems(2) obtain h where h: "normal_row fmt r h \<or> mining_row fmt r h"
    by auto
  have "\<exists>st1. bstep fmt dfs st r = Inr st1"
  proof (cases "normal_row fmt r h")
    case True
    from bstep_normal_row [OF True] show ?thesis by blast
  next
    case False
    with h have m: "mining_row fmt r h" by simp
    then have "is_mining fmt r" by (simp add: mining_row_def)
    with Cons.prems(1,3) have i: "st_i st < length dfs"
      by (simp add: loop_inv_def)
    with assms(4) obtain v vs where "dfs ! st_i st = VTuple (v # vs)"
      using nth_mem by blast
    moreover from Cons.prems(1) have "bd_ok (st_block_dict st)"
      by (simp add: loop_inv_def)
    ultimately show ?thesis
      using bstep_mining_row [OF m i] by blast
  qed
  then obtain st1 where st1: "bstep fmt dfs st r = Inr st1" ..
  from loop_inv_step [OF Cons.prems(1) st1]
  have inv1: "loop_inv fmt (xs @ [r]) st1" .
  from Cons.prems(2) have rest: "\<forall>r \<in> set rs. \<exists>h. normal_row fmt r h \<or> mining_row fmt r h"
    by simp
  from Cons.prems(3)
  have "length (filter (is_mining fmt) ((xs @ [r]) @ rs)) \<le> length dfs"
    by simp
  from Cons.IH [OF inv1 rest this] st1 show ?case
    by (simp add: ebind_def)
qed

lemma blocktojsondiffs_returns:
  assumes "\<forall>r \<in> set rows. \<exists>h. normal_row fmt r h \<or> mining_row fmt r h"
    and "length (filter (is_mining fmt) rows) \<le> length dfs"
    and "\<forall>d \<in> set dfs. \<exists>v vs. d = VTuple (v # vs)"
  shows "\<exists>out. blocktojsondiffs fmt rows dfs = Inr out"
proof -
  from assms(2) have "length (filter (is_mining fmt) ([] @ rows)) \<le> length dfs"
    by simp
  from bloop_returns [OF loop_inv_init assms(1) this assms(3)]
  show ?thesis by (auto simp: blocktojsondiffs_def ebind_def)
qed

subsection \<open>Range caps\<close>

lemma py_gt_int: "py_gt (VInt a) (VInt b) = Inr (b < a)"
  by (simp add: py_gt_def py_lt_def)

lemma cap_limit: "(if c < limit then VInt c else VInt limit) = VInt (min limit c)"
  by (simp add: min_def)

lemma run_sql_tx_range:
  "run_sql SQL_TX_RANGE [VInt lo, VInt hi] w =
     Inr (map VRow (filter (\<lambda>r. lo \<le> block_height r \<and> block_height r < hi) (transactions w)))"
  by (simp add: run_sql_def sql_differs)

lemma run_sql_diff_range:
  "run_sql SQL_DIFF_RANGE [VInt lo, VInt hi] w =
     Inr (map (\<lambda>(h, d). VTuple [VFloat d])
            (filter (\<lambda>(h, d). lo \<le> h \<and> h < hi) (misc w)))"
  by (simp add: run_sql_def sql_differs cong: conj_cong)

lemma run_sql_tx_address_since:
  "run_sql SQL_TX_ADDRESS_SINCE [VInt lo, VInt hi, VStr a, VStr a] w =
     Inr (map VRow (sort_key block_height
            (filter (\<lambda>r. lo < block_height r \<and> block_height r \<le> hi
                        \<and> (address r = a \<or> recipient r = a)) (transactions w))))"
  by (simp add: run_sql_def sql_differs sql_text_eq_def)

lemma blocktojsondiffs_keys:
  assumes "blocktojsondiffs fmt rows dfs = Inr out"
  shows "distinct (map fst out)"
    and "fst ` set out \<subseteq> {h. \<exists>r \<in> set rows. tx_height fmt r = Some h}"
proof -
  from assms obtain stf where
    run: "bloop fmt dfs bstate_init rows = Inr stf" and out: "out = st_blocks_dict stf"
    by (auto simp: blocktojsondiffs_def ebind_Inr)
  from loop_inv_bloop [OF loop_inv_init run] have inv: "loop_inv fmt rows stf"
    by simp
  from inv out show "distinct (map fst out)"
    by (simp add: loop_inv_def)
  from inv out show "fst ` set out \<subseteq> {h. \<exists>r \<in> set rows. tx_height fmt r = Some h}"
    by (auto simp: loop_inv_def)
qed

lemma api_getaddressrange_cap:
  assumes "inbox w = VStr a # VInt start # VInt limit # rest"
  shows "\<exists>txs. api_getaddressrange nd w =
           (Inr VNone,
            w\<lparr>inbox := rest,
              db_calls := db_calls w @
                [GetAddressRange (VStr a) (VInt start) (VInt (min limit 500))],
              outbox := outbox w @ [to_blocks_dict nd txs]\<rparr>)
         \<and> length txs \<le> 500"
proof -
  let ?txs = "map VRow (take (nat (min limit 500))
                 (filter (\<lambda>r. (address r = a \<or> recipient r = a) \<and> start \<le> block_height r)
                    (transactions w)))"
  have "api_getaddressrange nd w =
           (Inr VNone,
            w\<lparr>inbox := rest,
              db_calls := db_calls w @
                [GetAddressRange (VStr a) (VInt start) (VInt (min limit 500))],
              outbox := outbox w @ [to_blocks_dict nd ?txs]\<rparr>)"
    using assms
    by (simp add: api_getaddressrange_def act_defs py_gt_int cap_limit db_get_address_range_def
          get_address_range_def sql_text_eq_def)
  moreover have "length ?txs \<le> 500" by simp
  ultimately show ?thesis by blast
qed

lemma api_getblockrange_cap:
  assumes inb: "inbox w = VInt start # VInt limit # rest"
    and hts: "\<forall>r. tx_height (to_dict nd) (VRow r) = Some (VInt (block_height r))"
  shows "\<exists>res w'. api_getblockrange nd w = (res, w')
           \<and> ((\<exists>e. res = Inl e \<and> outbox w' = outbox w)
              \<or> (\<exists>blocks. res = Inr VNone
                    \<and> outbox w' = outbox w @ [json_dumps nd (VDict blocks)]
                    \<and> length blocks \<le> 50
                    \<and> fst ` set blocks \<subseteq> VInt ` {start ..< start + min limit 50}))"
proof -
  let ?stop = "start + min limit 50"
  let ?rows = "map VRow (filter (\<lambda>r. start \<le> block_height r \<and> block_height r < ?stop)
                           (transactions w))"
  let ?dfs = "map (\<lambda>(h, d). VTuple [VFloat d])
                (filter (\<lambda>(h, d). start \<le> h \<and> h < ?stop) (misc w))"
  let ?w1 = "w\<lparr>inbox := rest, cursor := [],
               db_calls := db_calls w @
                 [Execute SQL_TX_RANGE [VInt start, VInt ?stop],
                  Execute SQL_DIFF_RANGE [VInt start, VInt ?stop]]\<rparr>"
  show ?thesis
  proof (cases "blocktojsondiffs (to_dict nd) ?rows ?dfs")
    case (Inl e)
    with inb have "api_getblockrange nd w =
        (Inl e, ?w1\<lparr>app_log := app_log w @ [(WARNING, str_of_exn e, [])]\<rparr>)"
      by (simp add: api_getblockrange_def act_defs py_gt_int cap_limit py_arith_int
            execute_param_def fetchall_def run_sql_tx_range run_sql_diff_range)
    then show ?thesis by simp
  next
    case (Inr blocks)
    with inb have run: "api_getblockrange nd w =
        (Inr VNone, ?w1\<lparr>outbox := outbox w @ [json_dumps nd (VDict blocks)]\<rparr>)"
      by (simp add: api_getblockrange_def act_defs py_gt_int cap_limit py_arith_int
            execute_param_def fetchall_def run_sql_tx_range run_sql_diff_range)
    have dist: "distinct (map fst blocks)"
      by (rule blocktojsondiffs_keys(1) [OF Inr])
    have keys: "fst ` set blocks \<subseteq> VInt ` {start ..< ?stop}"
    proof
      fix k assume "k \<in> fst ` set blocks"
      with blocktojsondiffs_keys(2) [OF Inr] obtain r where
        r: "r \<in> set ?rows" and k: "tx_height (to_dict nd) r = Some k"
        by blast
      from r obtain t where t: "r = VRow t" "start \<le> block_height t" "block_height t < ?stop"
        by auto
      with k hts have "k = VInt (block_height t)" by simp
      with t show "k \<in> VInt ` {start ..< ?stop}" by simp
    qed
    have "length blocks = card (fst ` set blocks)"
      using dist by (metis distinct_card length_map set_map)
    also have "\<dots> \<le> card (VInt ` {start ..< ?stop})"
      by (rule card_mono [OF _ keys]) simp
    also have "\<dots> \<le> card {start ..< ?stop}"
      by (rule card_image_le) simp
    also have "\<dots> \<le> 50" by simp
    finally have "length blocks \<le> 50" .
    with run keys show ?thesis by auto
  qed
qed

lemma api_getaddresssince_window:
  assumes "inbox w = VInt since # VInt minconf # VStr a # rest"
  shows "api_getaddresssince nd w =
           (Inr VNone,
            w\<lparr>inbox := rest, cursor := [],
              db_calls := db_calls w @
                [BlockHeightMax,
                 Execute SQL_TX_ADDRESS_SINCE
                   [VInt since, VInt (min (height_max w - minconf) (since + 720)), VStr a, VStr a]],
              outbox := outbox w @
                [VDict [(VStr ''last'', VInt (min (height_max w - minconf) (since + 720))),
                        (VStr ''minconf'', VInt minconf),
                        (VStr ''transactions'',
                         VList ((if legacy_db nd then (\<lambda>rows. rows) else map (from_v2_to_tuple nd))
                           (map VRow (sort_key block_height
                              (filter (\<lambda>r. since < block_height r
                                   \<and> block_height r \<le> min (height_max w - minconf) (since + 720)
                                   \<and> (address r = a \<or> recipient r = a)) (transactions w))))))]]\<rparr>)"
  using assms
  by (simp add: api_getaddresssince_def act_defs block_height_max_def execute_param_def
        fetchall_def run_sql_tx_address_since py_min_int py_sub_int py_int_def py_str_def Let_def)

text \<open>
  C8. Range caps. \<open>api_getaddressrange\<close> asks the ledger handle for at most 500 entries
  whatever limit was requested, and answers with the at most 500 rows it gets.
  \<open>api_getblockrange\<close> answers, when it answers, with at most 50 blocks, all with heights
  in the 50 consecutive heights from \<open>start_block\<close> (fewer for a smaller limit), provided
  the codec reports the height of a row. \<open>api_getaddresssince\<close> answers with the rows of the
  address in \<open>(since_height, min(height_max - minconf, since_height + 720)]\<close>, so within
  720 heights above \<open>since_height\<close>, and reports that upper bound as \<open>last\<close>.
\<close>

theorem range_caps:
  "(inbox w = VStr a # VInt start # VInt limit # rest \<longrightarrow>
      (\<exists>txs. api_getaddressrange nd w =
           (Inr VNone,
            w\<lparr>inbox := rest,
              db_calls := db_calls w @
                [GetAddressRange (VStr a) (VInt start) (VInt (min limit 500))],
              outbox := outbox w @ [to_blocks_dict nd txs]\<rparr>)
         \<and> length txs \<le> 500))
   \<and> (inbox w = VInt start # VInt limit # rest
        \<and> (\<forall>r. tx_height (to_dict nd) (VRow r) = Some (VInt (block_height r))) \<longrightarrow>
      (\<exists>res w'. api_getblockrange nd w = (res, w')
           \<and> ((\<exists>e. res = Inl e \<and> outbox w' = outbox w)
              \<or> (\<exists>blocks. res = Inr VNone
                    \<and> outbox w' = outbox w @ [json_dumps nd (VDict blocks)]
                    \<and> length blocks \<le> 50
                    \<and> fst ` set blocks \<subseteq> VInt ` {start ..< start + min limit 50}))))
   \<and> (inbox w = VInt since # VInt minconf # VStr a # rest \<longrightarrow>
      api_getaddresssince nd w =
           (Inr VNone,
            w\<lparr>inbox := rest, cursor := [],
              db_calls := db_calls w @
                [BlockHeightMax,
                 Execute SQL_TX_ADDRESS_SINCE
                   [VInt since, VInt (min (height_max w - minconf) (since + 720)), VStr a, VStr a]],
              outbox := outbox w @
                [VDict [(VStr ''last'', VInt (min (height_max w - minconf) (since + 720))),
                        (VStr ''minconf'', VInt minconf),
                        (VStr ''transactions'',
                         VList ((if legacy_db nd then (\<lambda>rows. rows) else map (from_v2_to_tuple nd))
                           (map VRow (sort_key block_height
                              (filter (\<lambda>r. since < block_height r
                                   \<and> block_height r \<le> min (height_max w - minconf) (since + 720)
                                   \<and> (address r = a \<or> recipient r = a)) (transactions w))))))]]\<rparr>)
      \<and> (\<forall>r \<in> set (filter (\<lambda>r. since < block_height r
                                   \<and> block_height r \<le> min (height_max w - minconf) (since + 720)
                                   \<and> (address r = a \<or> recipient r = a)) (transactions w)).
            since < block_height r \<and> block_height r \<le> since + 720))"
proof (intro conjI impI)
  assume "inbox w = VStr a # VInt start # VInt limit # rest"
  then show "\<exists>txs. api_getaddressrange nd w =
           (Inr VNone,
            w\<lparr>inbox := rest,
              db_calls := db_calls w @
                [GetAddressRange (VStr a) (VInt start) (VInt (min limit 500))],
              outbox := outbox w @ [to_blocks_dict nd txs]\<rparr>)
         \<and> length txs \<le> 500"
    by (rule api_getaddressrange_cap)
next
  assume "inbox w = VInt start # VInt limit # rest
        \<and> (\<forall>r. tx_height (to_dict nd) (VRow r) = Some (VInt (block_height r)))"
  then show "\<exists>res w'. api_getblockrange nd w = (res, w')
           \<and> ((\<exists>e. res = Inl e \<and> outbox w' = outbox w)
              \<or> (\<exists>blocks. res = Inr VNone
                    \<and> outbox w' = outbox w @ [json_dumps nd (VDict blocks)]
                    \<and> length blocks \<le> 50
                    \<and> fst ` set blocks \<subseteq> VInt ` {start ..< start + min limit 50}))"
    using api_getblockrange_cap [of w start limit rest nd] by blast
next
  assume "inbox w = VInt since # VInt minconf # VStr a # rest"
  then show "api_getaddresssince nd w =
           (Inr VNone,
            w\<lparr>inbox := rest, cursor := [],
              db_calls := db_calls w @
                [BlockHeightMax,
                 Execute SQL_TX_ADDRESS_SINCE
                   [VInt since, VInt (min (height_max w - minconf) (since + 720)), VStr a, VStr a]],
              outbox := outbox w @
                [VDict [(VStr ''last'', VInt (min (height_max w - minconf) (since + 720))),
                        (VStr ''minconf'', VInt minconf),
                        (VStr ''transactions'',
                         VList ((if legacy_db nd then (\<lambda>rows. rows) else map (from_v2_to_tuple nd))
                           (map VRow (sort_key block_height
                              (filter (\<lambda>r. since < block_height r
                                   \<and> block_height r \<le> min (height_max w - minconf) (since + 720)
                                   \<and> (address r = a \<or> recipient r = a)) (transactions w))))))]]\<rparr>)"
    by (rule api_getaddresssince_window)
next
  show "\<forall>r \<in> set (filter (\<lambda>r. since < block_height r
                                   \<and> block_height r \<le> min (height_max w - minconf) (since + 720)
                                   \<and> (address r = a \<or> recipient r = a)) (transactions w)).
            since < block_height r \<and> block_height r \<le> since + 720"
    by auto
qed

lemma api_getblockrange_example:
  "api_getblockrange example_node (example_world [VInt 1, VInt 10000]) =
     (Inr VNone,
      (example_world [])\<lparr>
        db_calls := [Execute SQL_TX_RANGE [VInt 1, VInt 51], Execute SQL_DIFF_RANGE [VInt 1, VInt 51]],
        outbox := [VDict
          [(VInt 1, block_entry (example_mining_dict (mk_tx 1 ''miner'' ''miner'' 0 0 1500 []) (VFloat 10))
                      [example_normal_dict (mk_tx 1 ''alice'' ''bob'' 300 1 0 ''ab'')]),
           (VInt 2, block_entry (example_mining_dict (mk_tx 2 ''miner'' ''miner'' 0 0 1500 []) (VFloat 11))
                      [example_normal_dict (mk_tx 2 ''bob'' ''alice'' 100 1 0 ''xb'')]),
           (VInt 3, block_entry (example_mining_dict (mk_tx 3 ''miner'' ''miner'' 0 0 1500 []) (VFloat 12))
                      [example_normal_dict (mk_tx 3 ''alice'' ''carol'' 50 1 0 ''Abc'')])]]\<rparr>)"
  by (simp add: api_getblockrange_def act_defs py_gt_int py_arith_int
        execute_param_def fetchall_def run_sql_tx_range run_sql_diff_range
        blocktojsondiffs_def bstate_init_def ebind_def bstep_example_normal
        bstep_example_mining bd_ok_def block_entry_def
        example_world_def example_node_def example_ledger_def mk_tx_def)

theorem range_caps_witness:
  "(\<exists>txs. outbox (snd (api_getaddressrange example_node
              (example_world [VStr ''alice'', VInt 1, VInt 10000]))) = [VList txs]
          \<and> length txs \<le> 500
          \<and> db_calls (snd (api_getaddressrange example_node
              (example_world [VStr ''alice'', VInt 1, VInt 10000])))
             = [GetAddressRange (VStr ''alice'') (VInt 1) (VInt 500)])
   \<and> (\<exists>blocks. outbox (snd (api_getblockrange example_node (example_world [VInt 1, VInt 10000])))
                  = [VDict blocks]
          \<and> length blocks \<le> 50
          \<and> fst ` set blocks \<subseteq> VInt ` {1 ..< 51})
   \<and> outbox (snd (api_getaddresssince example_node
              (example_world [VInt 0, VInt 1, VStr ''alice'']))) =
        [VDict [(VStr ''last'', VInt 2), (VStr ''minconf'', VInt 1),
                (VStr ''transactions'',
                 VList [VRow (mk_tx 1 ''alice'' ''bob'' 300 1 0 ''ab''),
                        VRow (mk_tx 2 ''bob'' ''alice'' 100 1 0 ''xb'')])]]"
proof (intro conjI)
  let ?w = "example_world [VStr ''alice'', VInt 1, VInt 10000]"
  have inb: "inbox ?w = VStr ''alice'' # VInt 1 # VInt 10000 # []"
    by (simp add: example_world_def)
  from range_caps [of ?w "''alice''" 1 10000 "[]" example_node, THEN conjunct1, THEN mp, OF inb]
  show "\<exists>txs. outbox (snd (api_getaddressrange example_node ?w)) = [VList txs]
          \<and> length txs \<le> 500
          \<and> db_calls (snd (api_getaddressrange example_node ?w))
             = [GetAddressRange (VStr ''alice'') (VInt 1) (VInt 500)]"
    by (auto simp: example_world_def example_node_def)
next
  let ?w = "example_world [VInt 1, VInt 10000]"
  have pre: "inbox ?w = VInt 1 # VInt 10000 # []
        \<and> (\<forall>r. tx_height (to_dict example_node) (VRow r) = Some (VInt (block_height r)))"
    by (simp add: example_world_def example_node_def tx_height_example)
  have ok: "fst (api_getblockrange example_node ?w) = Inr VNone"
    by (simp add: api_getblockrange_example)
  have "outbox ?w = []"
    by (simp add: example_world_def)
  note ok = ok this
  from range_caps [of ?w _ 1 10000 "[]" example_node, THEN conjunct2, THEN conjunct1, THEN mp, OF pre] ok
  show "\<exists>blocks. outbox (snd (api_getblockrange example_node ?w)) = [VDict blocks]
          \<and> length blocks \<le> 50
          \<and> fst ` set blocks \<subseteq> VInt ` {1 ..< 51}"
    by (auto simp: example_node_def)
next
  let ?w = "example_world [VInt 0, VInt 1, VStr ''alice'']"
  have inb: "inbox ?w = VInt 0 # VInt 1 # VStr ''alice'' # []"
    by (simp add: example_world_def)
  show "outbox (snd (api_getaddresssince example_node ?w)) =
        [VDict [(VStr ''last'', VInt 2), (VStr ''minconf'', VInt 1),
                (VStr ''transactions'',
                 VList [VRow (mk_tx 1 ''alice'' ''bob'' 300 1 0 ''ab''),
                        VRow (mk_tx 2 ''bob'' ''alice'' 100 1 0 ''xb'')])]]"
    unfolding range_caps [of ?w "''alice''" _ _ "[]" example_node 0 1,
        THEN conjunct2, THEN conjunct2, THEN mp, OF inb, THEN conjunct1]
    by (simp add: example_world_def example_node_def example_ledger_def mk_tx_def)
qed


end
